theory Spec2Isabelle
  imports Main "HOL-Library.AList"
begin

section \<open>Go values shared by the packages\<close>

text \<open>
  A Go \<open>error\<close> value. The orchestration platform's client returns status errors that
  carry a reason (\<open>errors.IsAlreadyExists\<close> and \<open>errors.IsNotFound\<close> read it);
  \<open>fmt.Errorf\<close> builds a plain error from a message, or with \<open>%w\<close> one that wraps
  another error behind a message prefix.
\<close>

datatype StatusReason = StatusReasonAlreadyExists | StatusReasonNotFound | StatusReasonOther

datatype error =
    StatusError StatusReason string
  | Errorf string
  | ErrorfW string error

fun ErrorString :: "error \<Rightarrow> string" where
  "ErrorString (StatusError r m) = m"
| "ErrorString (Errorf m) = m"
| "ErrorString (ErrorfW m e) = m @ ErrorString e"

text \<open>The reason of an error, looked up through \<open>%w\<close> wrappers as \<open>errors.As\<close> does.\<close>

fun ReasonForError :: "error \<Rightarrow> StatusReason option" where
  "ReasonForError (StatusError r m) = Some r"
| "ReasonForError (Errorf m) = None"
| "ReasonForError (ErrorfW m e) = ReasonForError e"

definition IsAlreadyExists :: "error \<Rightarrow> bool" where
  "IsAlreadyExists err = (ReasonForError err = Some StatusReasonAlreadyExists)"

definition IsNotFound :: "error \<Rightarrow> bool" where
  "IsNotFound err = (ReasonForError err = Some StatusReasonNotFound)"

type_synonym Time = nat

text \<open>
  The JSON values the handlers hand to \<open>c.JSON\<close>: a \<open>gin.H\<close> is an object given as its
  key/value pairs, a Go string map is kept as a map, and a formatted time is kept as the
  layout together with the time.
\<close>

datatype json =
    JString string
  | JNumber int
  | JBool bool
  | JNull
  | JTime string Time
  | JMap "string \<rightharpoonup> string"
  | JArray "json list"
  | JObject "(string \<times> json) list"

text \<open>
  What a handler writes: \<open>c.JSON(status, body)\<close>, \<open>httputil.Error(c, status, err)\<close>,
  \<open>c.Writer.WriteHeader(status)\<close>; \<open>RespPanic\<close> is a handler left by a panic before any
  response was written.
\<close>

datatype response =
    RespJSON nat json
  | RespError nat error
  | RespStatus nat
  | RespPanic

abbreviation StatusOK :: nat where "StatusOK \<equiv> 200"
abbreviation StatusCreated :: nat where "StatusCreated \<equiv> 201"
abbreviation StatusNoContent :: nat where "StatusNoContent \<equiv> 204"
abbreviation StatusForbidden :: nat where "StatusForbidden \<equiv> 403"
abbreviation StatusNotFound :: nat where "StatusNotFound \<equiv> 404"
abbreviation StatusConflict :: nat where "StatusConflict \<equiv> 409"
abbreviation StatusInternalServerError :: nat where "StatusInternalServerError \<equiv> 500"

fun StatusCode :: "response \<Rightarrow> nat option" where
  "StatusCode (RespJSON s b) = Some s"
| "StatusCode (RespError s e) = Some s"
| "StatusCode (RespStatus s) = Some s"
| "StatusCode RespPanic = None"

text \<open>The lines written through \<open>klog\<close>.\<close>

datatype klog = KInfo string | KWarning string | KError string

section \<open>Package types: the entities\<close>

text \<open>
  Modelled from the spec: the Network entity, whose source is not among the files
  embedded here. It has an identity \<open>ID\<close>, a \<open>Name\<close>, \<open>Labels\<close> and \<open>Created\<close>; its
  derived boolean \<open>IsPredefined()\<close> is taken as a parameter of the handlers that call
  it.
\<close>

record Network =
  ID :: string
  Name :: string
  Labels :: "(string \<rightharpoonup> string) option"
  Created :: Time

text \<open>
  Modelled from the spec: the Container entity, whose source is not among the files
  embedded here. Of its fields the handlers use \<open>ID\<close>, \<open>Name\<close>, \<open>Networks\<close> (the set
  of network IDs the container is attached to) and \<open>NetworkAliases\<close> (an ordered
  sequence of aliases).
\<close>

record Container =
  ID :: string
  Name :: string
  Networks :: "string set"
  NetworkAliases :: "string list"

text \<open>
  Modelled from the spec: the method \<open>ConnectNetwork\<close> of the missing Container type.
  \<open>ConnectNetwork(networkID)\<close> adds membership, and reconnecting is a no-op for
  membership.
\<close>

definition ConnectNetwork :: "Container \<Rightarrow> string \<Rightarrow> Container" where
  "ConnectNetwork tainr networkID = tainr\<lparr>Networks := insert networkID (Networks tainr)\<rparr>"

text \<open>
  Modelled from the spec: the method \<open>DisconnectNetwork\<close> of the missing Container
  type. \<open>DisconnectNetwork(networkID)\<close> removes membership and fails with a "not
  found" condition if the container was not a member.
\<close>

definition DisconnectNetwork :: "Container \<Rightarrow> string \<Rightarrow> error + Container" where
  "DisconnectNetwork tainr networkID =
     (if networkID \<in> Networks tainr
      then Inr (tainr\<lparr>Networks := Networks tainr - {networkID}\<rparr>)
      else Inl (Errorf ''not found''))"

text \<open>The Volume entity. A nil \<open>Labels\<close> map is \<open>None\<close>.\<close>

record Volume =
  ID :: string
  ShortID :: string
  Name :: string
  Driver :: string
  Labels :: "(string \<rightharpoonup> string) option"
  Mountpoint :: string
  Created :: Time

text \<open>
  \<open>nameMatch\<close>: exact match first, then \<open>regexp.MatchString(key, v.Name)\<close>. The regular
  expression engine is Go's library; its answer for a pattern and a string is the
  parameter \<open>MatchString\<close> (\<open>Inl\<close> for a pattern that does not compile). The result
  pair is Go's \<open>(bool, error)\<close>, with \<open>None\<close> for a nil error.
\<close>

definition nameMatch ::
  "(string \<Rightarrow> string \<Rightarrow> error + bool) \<Rightarrow> Volume \<Rightarrow> string \<Rightarrow> bool \<times> error option" where
  "nameMatch MatchString v key =
     (if Volume.Name v = key then (True, None)
      else (case MatchString key (Volume.Name v) of
              Inl err \<Rightarrow> (False, Some err)
            | Inr match \<Rightarrow> (match, None)))"

text \<open>Reading a Go map that may be nil: a nil map has no keys.\<close>

definition index :: "('k \<rightharpoonup> 'v) option \<Rightarrow> 'k \<Rightarrow> 'v option" where
  "index m k = (case m of None \<Rightarrow> None | Some f \<Rightarrow> f k)"

definition Match ::
  "(string \<Rightarrow> string \<Rightarrow> error + bool) \<Rightarrow> Volume \<Rightarrow> string \<Rightarrow> string \<Rightarrow> string
     \<Rightarrow> bool \<times> error option" where
  "Match MatchString v typ key val =
     (if typ = ''name'' then nameMatch MatchString v key
      else if typ = ''driver'' then (Volume.Driver v = key, None)
      else if typ \<noteq> ''label'' then (True, None)
      else (case index (Volume.Labels v) key of
              None \<Rightarrow> (False, None)
            | Some vv \<Rightarrow> (vv = val, None)))"

section \<open>The entity store\<close>

text \<open>
  Modelled from the spec: the entity store (\<open>cr.DB\<close>), whose source is not among the
  files embedded here. It is the in-process record of Containers, Networks and Volumes;
  the entities are kept in the order they were added.
\<close>

record Database =
  networks :: "Network list"
  containers :: "Container list"
  volumes :: "Volume list"

text \<open>
  Modelled from the spec: what the store generates when a volume is first saved, which
  no embedded source shows: the \<open>ID\<close> (system-generated), the length of the \<open>ShortID\<close>
  (a derived prefix of \<open>ID\<close>) and the \<open>Created\<close> timestamp (set once at creation).
\<close>

record stamp =
  NewID :: string
  ShortLen :: nat
  Now :: Time

text \<open>
  Modelled from the spec: the NotFound condition of the store's lookups and deletions;
  the store's own error value is missing.
\<close>

definition ErrNotFound :: error where
  "ErrNotFound = Errorf ''not found''"

text \<open>
  Modelled from the spec: \<open>GetVolumeByName\<close> of the missing store. \<open>GetByName(name)\<close>
  gives the entity or NotFound, by exact match only.
\<close>

definition DB_GetVolumeByName :: "Database \<Rightarrow> string \<Rightarrow> error + Volume" where
  "DB_GetVolumeByName db name =
     (case List.find (\<lambda>v. Volume.Name v = name) (volumes db) of
        None \<Rightarrow> Inl ErrNotFound | Some v \<Rightarrow> Inr v)"

text \<open>
  Modelled from the spec: \<open>GetVolumeByNameOrID\<close> of the missing store.
  \<open>GetByNameOrID(id)\<close> first attempts an exact ID match, then an exact name match, and
  gives the entity or NotFound.
\<close>

definition DB_GetVolumeByNameOrID :: "Database \<Rightarrow> string \<Rightarrow> error + Volume" where
  "DB_GetVolumeByNameOrID db i =
     (case List.find (\<lambda>v. Volume.ID v = i) (volumes db) of
        Some v \<Rightarrow> Inr v | None \<Rightarrow> DB_GetVolumeByName db i)"

text \<open>
  Modelled from the spec: \<open>GetNetworkByNameOrID\<close> of the missing store, ID before name
  as for volumes.
\<close>

definition DB_GetNetworkByNameOrID :: "Database \<Rightarrow> string \<Rightarrow> error + Network" where
  "DB_GetNetworkByNameOrID db i =
     (case List.find (\<lambda>n. Network.ID n = i) (networks db) of
        Some n \<Rightarrow> Inr n
      | None \<Rightarrow> (case List.find (\<lambda>n. Network.Name n = i) (networks db) of
                   None \<Rightarrow> Inl ErrNotFound | Some n \<Rightarrow> Inr n))"

text \<open>
  Modelled from the spec: \<open>GetContainerByNameOrID\<close> of the missing store, ID before
  name as for volumes.
\<close>

definition DB_GetContainerByNameOrID :: "Database \<Rightarrow> string \<Rightarrow> error + Container" where
  "DB_GetContainerByNameOrID db i =
     (case List.find (\<lambda>t. Container.ID t = i) (containers db) of
        Some t \<Rightarrow> Inr t
      | None \<Rightarrow> (case List.find (\<lambda>t. Container.Name t = i) (containers db) of
                   None \<Rightarrow> Inl ErrNotFound | Some t \<Rightarrow> Inr t))"

text \<open>
  Modelled from the spec: \<open>GetVolumes\<close> of the missing store. \<open>List()\<close> gives the
  sequence of entities; the spec names no failure of it.
\<close>

definition DB_GetVolumes :: "Database \<Rightarrow> error + Volume list" where
  "DB_GetVolumes db = Inr (volumes db)"

text \<open>Modelled from the spec: \<open>GetNetworks\<close> of the missing store, \<open>List()\<close> for networks.\<close>

definition DB_GetNetworks :: "Database \<Rightarrow> error + Network list" where
  "DB_GetNetworks db = Inr (networks db)"

text \<open>
  Modelled from the spec: \<open>GetContainers\<close> of the missing store, \<open>List()\<close> for
  containers.
\<close>

definition DB_GetContainers :: "Database \<Rightarrow> error + Container list" where
  "DB_GetContainers db = Inr (containers db)"

text \<open>
  Modelled from the spec: \<open>DeleteVolume\<close> of the missing store. \<open>Delete(entity)\<close>
  removes what is stored under the entity's \<open>ID\<close>; an entity that is absent is the
  NotFound condition.
\<close>

definition DB_DeleteVolume :: "Database \<Rightarrow> Volume \<Rightarrow> error + Database" where
  "DB_DeleteVolume db vol =
     (if \<exists>v \<in> set (volumes db). Volume.ID v = Volume.ID vol
      then Inr (db\<lparr>volumes := filter (\<lambda>v. Volume.ID v \<noteq> Volume.ID vol) (volumes db)\<rparr>)
      else Inl ErrNotFound)"

text \<open>
  Modelled from the spec: \<open>DeleteNetwork\<close> of the missing store, \<open>Delete(entity)\<close> for
  networks.
\<close>

definition DB_DeleteNetwork :: "Database \<Rightarrow> Network \<Rightarrow> error + Database" where
  "DB_DeleteNetwork db netw =
     (if \<exists>n \<in> set (networks db). Network.ID n = Network.ID netw
      then Inr (db\<lparr>networks := filter (\<lambda>n. Network.ID n \<noteq> Network.ID netw) (networks db)\<rparr>)
      else Inl ErrNotFound)"

text \<open>
  Modelled from the spec: \<open>SaveVolume\<close> of the missing store. \<open>Save(entity)\<close> stores
  the entity under its \<open>ID\<close>, in place of the entity stored under that \<open>ID\<close> if there
  is one. A volume saved for the first time (its \<open>ID\<close> is still empty) receives the
  generated \<open>ID\<close>, \<open>ShortID\<close> and \<open>Created\<close>; the saved entity is returned with the
  new store, as the Go code sees it through the pointer.
\<close>

definition DB_SaveVolume :: "Database \<Rightarrow> stamp \<Rightarrow> Volume \<Rightarrow> error + (Volume \<times> Database)" where
  "DB_SaveVolume db st vol =
     (let v = (if Volume.ID vol = []
               then vol\<lparr>Volume.ID := NewID st,
                        ShortID := take (ShortLen st) (NewID st),
                        Volume.Created := Now st\<rparr>
               else vol)
      in Inr (v, db\<lparr>volumes :=
                (if \<exists>w \<in> set (volumes db). Volume.ID w = Volume.ID v
                 then map (\<lambda>w. if Volume.ID w = Volume.ID v then v else w) (volumes db)
                 else volumes db @ [v])\<rparr>))"

text \<open>
  Modelled from the spec: \<open>SaveContainer\<close> of the missing store, \<open>Save(entity)\<close> for a
  container, which the handlers here have read from the store and which keeps its
  \<open>ID\<close>.
\<close>

definition DB_SaveContainer :: "Database \<Rightarrow> Container \<Rightarrow> error + Database" where
  "DB_SaveContainer db tainr =
     Inr (db\<lparr>containers :=
       (if \<exists>t \<in> set (containers db). Container.ID t = Container.ID tainr
        then map (\<lambda>t. if Container.ID t = Container.ID tainr then tainr else t) (containers db)
        else containers db @ [tainr])\<rparr>)"

section \<open>Package backend: volumes as persistent volume claims\<close>

datatype PersistentVolumeAccessMode = ReadWriteOnce | ReadOnlyMany | ReadWriteMany

fun AccessModeString :: "PersistentVolumeAccessMode \<Rightarrow> string" where
  "AccessModeString ReadWriteOnce = ''ReadWriteOnce''"
| "AccessModeString ReadOnlyMany = ''ReadOnlyMany''"
| "AccessModeString ReadWriteMany = ''ReadWriteMany''"

text \<open>A parsed \<open>resource.Quantity\<close>; only its presence matters here.\<close>

datatype Quantity = Quantity int

record PersistentVolumeClaim =
  Name :: string
  Namespace :: string
  Labels :: "string \<rightharpoonup> string"
  Annotations :: "string \<rightharpoonup> string"
  AccessModes :: "PersistentVolumeAccessMode list"
  StorageRequest :: Quantity
  StorageClassName :: "string option"

text \<open>
  The calls made on the platform's client, each with the namespace it addresses. The
  platform is outside the program: its answer to a call, given the calls made before,
  is the function \<open>cli\<close> of the instance (\<open>None\<close> for a nil error).
\<close>

datatype call =
    CreatePVC string PersistentVolumeClaim
  | DeletePVC string string

text \<open>
  The backend instance (Go type \<open>instance\<close>). \<open>toKubernetesName\<close> is a method of
  the instance that is not
  among the source files embedded here; it is taken as a field.
\<close>

record backend =
  cli :: "call list \<Rightarrow> call \<Rightarrow> error option"
  namespace :: string
  volumeAccessMode :: string
  volumeSize :: string
  storageClass :: string
  toKubernetesName :: "string \<Rightarrow> string"

text \<open>
  Names of other packages that \<open>CreateVolume\<close> reads and that are not among the source
  files embedded here: the label and annotation maps of package \<open>config\<close>, and
  \<open>resource.MustParse\<close>, which panics (\<open>None\<close>) on a size it cannot parse.
\<close>

record pkgs =
  SystemLabels :: "string \<rightharpoonup> string"
  DefaultLabels :: "string \<rightharpoonup> string"
  DefaultAnnotations :: "string \<rightharpoonup> string"
  MustParse :: "string \<Rightarrow> Quantity option"

text \<open>
  The state the handlers act on: the entity store, the calls made on the platform so
  far, and the lines logged so far.
\<close>

record world =
  DB :: Database
  Calls :: "call list"
  Klog :: "klog list"

datatype 'a outcome = Panics | Returns 'a

definition getVolumePVCName :: "backend \<Rightarrow> Volume \<Rightarrow> string" where
  "getVolumePVCName inst vol =
     (let name = ''kubedock-vol-'' @ toKubernetesName inst (Volume.Name vol)
      in if length name > 63 then take 63 name else name)"

definition parseAccessMode :: "backend \<Rightarrow> string \<Rightarrow> PersistentVolumeAccessMode" where
  "parseAccessMode inst mode =
     (if mode = ''ReadWriteMany'' \<or> mode = ''RWX'' then ReadWriteMany
      else if mode = ''ReadOnlyMany'' \<or> mode = ''ROX'' then ReadOnlyMany
      else ReadWriteOnce)"

text \<open>
  The claim that \<open>CreateVolume\<close> builds for a volume, given the parsed size: the labels
  and annotations, the name, the access mode and, if one is configured, the storage
  class.
\<close>

definition CreateVolume_pvc :: "pkgs \<Rightarrow> backend \<Rightarrow> Volume \<Rightarrow> Quantity \<Rightarrow> PersistentVolumeClaim" where
  "CreateVolume_pvc pk inst vol qty =
     (let labels = (SystemLabels pk ++ DefaultLabels pk)(''kubedock.volumeid'' \<mapsto> ShortID vol);
          annotations = (DefaultAnnotations pk)(''kubedock.volumename'' \<mapsto> Volume.Name vol);
          pvcName = getVolumePVCName inst vol;
          accessMode = parseAccessMode inst (volumeAccessMode inst);
          pvc = \<lparr>PersistentVolumeClaim.Name = pvcName,
                 Namespace = namespace inst,
                 PersistentVolumeClaim.Labels = labels,
                 Annotations = annotations,
                 AccessModes = [accessMode],
                 StorageRequest = qty,
                 StorageClassName = None\<rparr>
      in if storageClass inst \<noteq> []
         then pvc\<lparr>StorageClassName := Some (storageClass inst)\<rparr> else pvc)"

text \<open>
  \<open>CreateVolume\<close> returns Go's error (\<open>None\<close> for nil) together with the volume, which
  the Go code changes through the pointer, and the new state. The size is parsed while
  the claim is built, before the platform is called.
\<close>

definition CreateVolume ::
  "pkgs \<Rightarrow> backend \<Rightarrow> Volume \<Rightarrow> world \<Rightarrow> (error option \<times> Volume \<times> world) outcome" where
  "CreateVolume pk inst vol w =
     (case MustParse pk (volumeSize inst) of
        None \<Rightarrow> Panics
      | Some qty \<Rightarrow>
         (let pvcName = getVolumePVCName inst vol;
              accessMode = parseAccessMode inst (volumeAccessMode inst);
              pvc = CreateVolume_pvc pk inst vol qty;
              err = cli inst (Calls w) (CreatePVC (namespace inst) pvc);
              w1 = w\<lparr>Calls := Calls w @ [CreatePVC (namespace inst) pvc]\<rparr>
          in if err \<noteq> None \<and> \<not> IsAlreadyExists (the err)
             then Returns
                    (Some (ErrorfW (''failed to create PVC for volume '' @ Volume.Name vol @ '': '')
                             (the err)),
                     vol, w1)
             else Returns
                    (None,
                     vol\<lparr>Mountpoint := ''/var/lib/kubedock/volumes/'' @ Volume.Name vol\<rparr>,
                     w1\<lparr>Klog := Klog w1 @
                        [KInfo (''created PVC '' @ pvcName @ '' for volume '' @ Volume.Name vol
                           @ '' in namespace '' @ namespace inst
                           @ '' (storageClass='' @ storageClass inst
                           @ '', size='' @ volumeSize inst
                           @ '', accessMode='' @ AccessModeString accessMode @ '')'')]\<rparr>)))"

definition DeleteVolume :: "backend \<Rightarrow> Volume \<Rightarrow> world \<Rightarrow> error option \<times> world" where
  "DeleteVolume inst vol w =
     (let pvcName = getVolumePVCName inst vol;
          err = cli inst (Calls w) (DeletePVC (namespace inst) pvcName);
          w1 = w\<lparr>Calls := Calls w @ [DeletePVC (namespace inst) pvcName]\<rparr>
      in if err \<noteq> None \<and> \<not> IsNotFound (the err)
         then (Some (ErrorfW (''failed to delete PVC for volume '' @ Volume.Name vol @ '': '')
                       (the err)),
               w1)
         else (None,
               w1\<lparr>Klog := Klog w1 @
                  [KInfo (''deleted PVC '' @ pvcName @ '' for volume '' @ Volume.Name vol)]\<rparr>))"

section \<open>Package docker: the volume endpoints\<close>

text \<open>
  The request body of volume creation, the same in both packages but for a map of
  options (\<open>DriverOpts\<close>, in libpod \<open>Options\<close>) that the handlers do not read.
\<close>

record VolumeCreateRequest =
  Name :: string
  Driver :: string
  Labels :: "(string \<rightharpoonup> string) option"

text \<open>\<open>time.RFC3339\<close>.\<close>

definition RFC3339 :: string where
  "RFC3339 = ''2006-01-02T15:04:05Z07:00''"

definition volumeToJSON :: "Volume \<Rightarrow> json" where
  "volumeToJSON vol =
     (let driver = (if Volume.Driver vol = [] then ''local'' else Volume.Driver vol);
          labels = (case Volume.Labels vol of None \<Rightarrow> Map.empty | Some l \<Rightarrow> l);
          mountpoint = (if Mountpoint vol = []
                        then ''/var/lib/kubedock/volumes/'' @ Volume.Name vol
                        else Mountpoint vol)
      in JObject
           [(''Name'', JString (Volume.Name vol)),
            (''Driver'', JString driver),
            (''Mountpoint'', JString mountpoint),
            (''Labels'', JMap labels),
            (''Scope'', JString ''local''),
            (''CreatedAt'', JTime RFC3339 (Volume.Created vol)),
            (''Options'', JMap Map.empty),
            (''UsageData'', JNull)])"

text \<open>
  A handler takes the result of decoding the request body and the state, and returns
  what it wrote and the new state. The body decodes into a pointer to the request:
  \<open>Inl\<close> is a decoding error, \<open>Inr None\<close> is the JSON value \<open>null\<close>, which leaves
  the pointer nil without an error, so that the first read of a field panics.
  \<open>st\<close> is what the store generates if it saves a new volume during this request.
\<close>

definition docker_VolumeCreate ::
  "pkgs \<Rightarrow> backend \<Rightarrow> stamp \<Rightarrow> error + VolumeCreateRequest option \<Rightarrow> world
     \<Rightarrow> response \<times> world" where
  "docker_VolumeCreate pk be st body w =
     (case body of
        Inl err \<Rightarrow> (RespError StatusInternalServerError err, w)
      | Inr None \<Rightarrow> (RespPanic, w)
      | Inr (Some req) \<Rightarrow>
         (let driver = (if VolumeCreateRequest.Driver req = [] then ''local''
                        else VolumeCreateRequest.Driver req)
          in case DB_GetVolumeByName (DB w) (VolumeCreateRequest.Name req) of
               Inr existing \<Rightarrow> (RespJSON StatusCreated (volumeToJSON existing), w)
             | Inl _ \<Rightarrow>
                (let vol = \<lparr>Volume.ID = [], ShortID = [],
                            Volume.Name = VolumeCreateRequest.Name req,
                            Volume.Driver = driver,
                            Volume.Labels = VolumeCreateRequest.Labels req,
                            Mountpoint = [], Volume.Created = 0\<rparr>
                 in case CreateVolume pk be vol w of
                      Panics \<Rightarrow> (RespPanic, w)
                    | Returns (Some err, vol1, w1) \<Rightarrow>
                        (RespError StatusInternalServerError err, w1)
                    | Returns (None, vol1, w1) \<Rightarrow>
                       (case DB_SaveVolume (DB w1) st vol1 of
                          Inl err \<Rightarrow> (RespError StatusInternalServerError err, w1)
                        | Inr (vol2, db2) \<Rightarrow>
                            (RespJSON StatusCreated (volumeToJSON vol2), w1\<lparr>DB := db2\<rparr>)))))"

definition docker_VolumeDelete :: "backend \<Rightarrow> string \<Rightarrow> world \<Rightarrow> response \<times> world" where
  "docker_VolumeDelete be i w =
     (case DB_GetVolumeByNameOrID (DB w) i of
        Inl err \<Rightarrow> (RespError StatusNotFound err, w)
      | Inr vol \<Rightarrow>
         (let (berr, w1) = DeleteVolume be vol w;
              w2 = (case berr of
                      Some err \<Rightarrow>
                        w1\<lparr>Klog := Klog w1 @
                          [KWarning (''error deleting k8s PVC for volume: '' @ ErrorString err)]\<rparr>
                    | None \<Rightarrow> w1)
          in case DB_DeleteVolume (DB w2) vol of
               Inl err \<Rightarrow> (RespError StatusNotFound err, w2)
             | Inr db' \<Rightarrow> (RespStatus StatusNoContent, w2\<lparr>DB := db'\<rparr>)))"

text \<open>The loop of \<open>VolumesPrune\<close> over the listed volumes.\<close>

fun docker_VolumesPrune_loop ::
  "backend \<Rightarrow> Volume list \<Rightarrow> string list \<Rightarrow> world \<Rightarrow> string list \<times> world" where
  "docker_VolumesPrune_loop be [] names w = (names, w)"
| "docker_VolumesPrune_loop be (vol # vols) names w =
     (let (berr, w1) = DeleteVolume be vol w;
          w2 = (case berr of
                  Some err \<Rightarrow>
                    w1\<lparr>Klog := Klog w1 @
                      [KWarning (''error deleting k8s PVC for volume '' @ Volume.Name vol
                         @ '': '' @ ErrorString err)]\<rparr>
                | None \<Rightarrow> w1)
      in case DB_DeleteVolume (DB w2) vol of
           Inl err \<Rightarrow>
             docker_VolumesPrune_loop be vols names
               (w2\<lparr>Klog := Klog w2 @
                  [KWarning (''error deleting volume '' @ Volume.Name vol
                     @ '' from db: '' @ ErrorString err)]\<rparr>)
         | Inr db' \<Rightarrow>
             docker_VolumesPrune_loop be vols (names @ [Volume.Name vol]) (w2\<lparr>DB := db'\<rparr>))"

definition docker_VolumesPrune :: "backend \<Rightarrow> world \<Rightarrow> response \<times> world" where
  "docker_VolumesPrune be w =
     (case DB_GetVolumes (DB w) of
        Inl err \<Rightarrow> (RespError StatusInternalServerError err, w)
      | Inr vols \<Rightarrow>
         (let (names, w') = docker_VolumesPrune_loop be vols [] w
          in (RespJSON StatusOK
                (JObject [(''VolumesDeleted'', JArray (map JString names)),
                          (''SpaceReclaimed'', JNumber 0)]),
              w')))"

section \<open>Package libpod: the volume endpoints\<close>

definition volumeToLibpodJSON :: "Volume \<Rightarrow> json" where
  "volumeToLibpodJSON vol =
     (let driver = (if Volume.Driver vol = [] then ''local'' else Volume.Driver vol);
          labels = (case Volume.Labels vol of None \<Rightarrow> Map.empty | Some l \<Rightarrow> l);
          mountpoint = (if Mountpoint vol = []
                        then ''/var/lib/kubedock/volumes/'' @ Volume.Name vol
                        else Mountpoint vol)
      in JObject
           [(''Name'', JString (Volume.Name vol)),
            (''Driver'', JString driver),
            (''Mountpoint'', JString mountpoint),
            (''Labels'', JMap labels),
            (''Scope'', JString ''local''),
            (''CreatedAt'', JTime RFC3339 (Volume.Created vol)),
            (''Options'', JMap Map.empty)])"

definition libpod_VolumeCreate ::
  "pkgs \<Rightarrow> backend \<Rightarrow> stamp \<Rightarrow> error + VolumeCreateRequest option \<Rightarrow> world
     \<Rightarrow> response \<times> world" where
  "libpod_VolumeCreate pk be st body w =
     (case body of
        Inl err \<Rightarrow> (RespError StatusInternalServerError err, w)
      | Inr None \<Rightarrow> (RespPanic, w)
      | Inr (Some req) \<Rightarrow>
         (let driver = (if VolumeCreateRequest.Driver req = [] then ''local''
                        else VolumeCreateRequest.Driver req)
          in case DB_GetVolumeByName (DB w) (VolumeCreateRequest.Name req) of
               Inr existing \<Rightarrow> (RespJSON StatusCreated (volumeToLibpodJSON existing), w)
             | Inl _ \<Rightarrow>
                (let vol = \<lparr>Volume.ID = [], ShortID = [],
                            Volume.Name = VolumeCreateRequest.Name req,
                            Volume.Driver = driver,
                            Volume.Labels = VolumeCreateRequest.Labels req,
                            Mountpoint = [], Volume.Created = 0\<rparr>
                 in case CreateVolume pk be vol w of
                      Panics \<Rightarrow> (RespPanic, w)
                    | Returns (Some err, vol1, w1) \<Rightarrow>
                        (RespError StatusInternalServerError err, w1)
                    | Returns (None, vol1, w1) \<Rightarrow>
                       (case DB_SaveVolume (DB w1) st vol1 of
                          Inl err \<Rightarrow> (RespError StatusInternalServerError err, w1)
                        | Inr (vol2, db2) \<Rightarrow>
                            (RespJSON StatusCreated (volumeToLibpodJSON vol2),
                             w1\<lparr>DB := db2\<rparr>)))))"

definition libpod_VolumeDelete :: "backend \<Rightarrow> string \<Rightarrow> world \<Rightarrow> response \<times> world" where
  "libpod_VolumeDelete be name w =
     (case DB_GetVolumeByNameOrID (DB w) name of
        Inl err \<Rightarrow> (RespError StatusNotFound err, w)
      | Inr vol \<Rightarrow>
         (let (berr, w1) = DeleteVolume be vol w;
              w2 = (case berr of
                      Some err \<Rightarrow>
                        w1\<lparr>Klog := Klog w1 @
                          [KWarning (''error deleting k8s PVC for volume: '' @ ErrorString err)]\<rparr>
                    | None \<Rightarrow> w1)
          in case DB_DeleteVolume (DB w2) vol of
               Inl err \<Rightarrow> (RespError StatusNotFound err, w2)
             | Inr db' \<Rightarrow> (RespStatus StatusNoContent, w2\<lparr>DB := db'\<rparr>)))"

text \<open>The loop of \<open>VolumePrune\<close> over the listed volumes.\<close>

fun libpod_VolumePrune_loop ::
  "backend \<Rightarrow> Volume list \<Rightarrow> json list \<Rightarrow> world \<Rightarrow> json list \<times> world" where
  "libpod_VolumePrune_loop be [] pruned w = (pruned, w)"
| "libpod_VolumePrune_loop be (vol # vols) pruned w =
     (let (berr, w1) = DeleteVolume be vol w;
          w2 = (case berr of
                  Some err \<Rightarrow>
                    w1\<lparr>Klog := Klog w1 @
                      [KWarning (''error deleting k8s PVC for volume '' @ Volume.Name vol
                         @ '': '' @ ErrorString err)]\<rparr>
                | None \<Rightarrow> w1)
      in case DB_DeleteVolume (DB w2) vol of
           Inl err \<Rightarrow>
             libpod_VolumePrune_loop be vols pruned
               (w2\<lparr>Klog := Klog w2 @
                  [KWarning (''error deleting volume '' @ Volume.Name vol
                     @ '' from db: '' @ ErrorString err)]\<rparr>)
         | Inr db' \<Rightarrow>
             libpod_VolumePrune_loop be vols
               (pruned @ [JObject [(''Id'', JString (Volume.ID vol)), (''Size'', JNumber 0)]])
               (w2\<lparr>DB := db'\<rparr>))"

definition libpod_VolumePrune :: "backend \<Rightarrow> world \<Rightarrow> response \<times> world" where
  "libpod_VolumePrune be w =
     (case DB_GetVolumes (DB w) of
        Inl err \<Rightarrow> (RespError StatusInternalServerError err, w)
      | Inr vols \<Rightarrow>
         (let (pruned, w') = libpod_VolumePrune_loop be vols [] w
          in (RespJSON StatusOK (JArray pruned), w')))"

section \<open>Package libpod: the network endpoints\<close>

record NetworkConnectRequest =
  Container :: string
  Aliases :: "string list"

record NetworkDisconnectRequest =
  Container :: string

definition networkToLibpodJSON :: "Network \<Rightarrow> json" where
  "networkToLibpodJSON netw =
     (let labels = (case Network.Labels netw of None \<Rightarrow> Map.empty | Some l \<Rightarrow> l)
      in JObject
           [(''name'', JString (Network.Name netw)),
            (''id'', JString (Network.ID netw)),
            (''driver'', JString ''bridge''),
            (''network_interface'', JString ''kubedock0''),
            (''created'', JTime ''2006-01-02T15:04:05Z'' (Network.Created netw)),
            (''subnets'', JArray [JObject [(''subnet'', JString ''10.88.0.0/16''),
                                           (''gateway'', JString ''10.88.0.1'')]]),
            (''ipv6_enabled'', JBool False),
            (''internal'', JBool False),
            (''dns_enabled'', JBool True),
            (''labels'', JMap labels)])"

text \<open>
  \<open>getContainersInNetwork\<close>: the result map, keyed by container ID, is kept as its
  key/value pairs; \<open>len\<close> of the map is the length of the list.
\<close>

definition getContainersInNetwork :: "world \<Rightarrow> Network \<Rightarrow> (string \<times> json) list \<times> world" where
  "getContainersInNetwork w netw =
     (case DB_GetContainers (DB w) of
        Inr tainrs \<Rightarrow>
          (fold (\<lambda>tainr res.
                   if Network.ID netw \<in> Networks tainr
                   then AList.update (Container.ID tainr)
                          (JObject [(''Name'', JString (Container.Name tainr))]) res
                   else res)
             tainrs [],
           w)
      | Inl err \<Rightarrow>
          ([], w\<lparr>Klog := Klog w @
                 [KError (''error retrieving containers: '' @ ErrorString err)]\<rparr>))"

text \<open>
  The handlers take \<open>IsPredefined\<close>, the method of Network that is not among the
  source files embedded here, as a parameter.
\<close>

definition NetworkDelete :: "(Network \<Rightarrow> bool) \<Rightarrow> string \<Rightarrow> world \<Rightarrow> response \<times> world" where
  "NetworkDelete IsPredefined i w =
     (case DB_GetNetworkByNameOrID (DB w) i of
        Inl err \<Rightarrow> (RespError StatusNotFound err, w)
      | Inr netw \<Rightarrow>
         if IsPredefined netw
         then (RespError StatusForbidden
                 (Errorf (Network.Name netw @ '' is a pre-defined network and cannot be removed'')),
               w)
         else (let (res, w1) = getContainersInNetwork w netw
               in if length res \<noteq> 0
                  then (RespError StatusConflict
                          (Errorf ''cannot delete network, containers attached''), w1)
                  else (case DB_DeleteNetwork (DB w1) netw of
                          Inl err \<Rightarrow> (RespError StatusNotFound err, w1)
                        | Inr db' \<Rightarrow>
                            (RespJSON StatusOK (JArray [networkToLibpodJSON netw]),
                             w1\<lparr>DB := db'\<rparr>))))"

text \<open>
  The alias loop of \<open>NetworkConnect\<close>: \<open>done\<close> is the Go map of the aliases seen, and
  \<open>ToLower\<close> is \<open>strings.ToLower\<close> of Go's library, a parameter.
\<close>

fun NetworkConnect_aliases ::
  "(string \<Rightarrow> string) \<Rightarrow> string list \<Rightarrow> Container \<Rightarrow> (string \<rightharpoonup> string)
     \<Rightarrow> Container \<times> (string \<rightharpoonup> string)" where
  "NetworkConnect_aliases ToLower [] tainr done = (tainr, done)"
| "NetworkConnect_aliases ToLower (a # as) tainr done =
     (let alias = ToLower a
      in if done alias = None
         then NetworkConnect_aliases ToLower as
                (tainr\<lparr>NetworkAliases := NetworkAliases tainr @ [alias]\<rparr>)
                (done(alias \<mapsto> alias))
         else NetworkConnect_aliases ToLower as tainr done)"

definition NetworkConnect ::
  "(string \<Rightarrow> string) \<Rightarrow> string \<Rightarrow> error + NetworkConnectRequest option \<Rightarrow> world
     \<Rightarrow> response \<times> world" where
  "NetworkConnect ToLower i body w =
     (case body of
        Inl err \<Rightarrow> (RespError StatusInternalServerError err, w)
      | Inr p \<Rightarrow>
         (case DB_GetNetworkByNameOrID (DB w) i of
            Inl err \<Rightarrow> (RespError StatusNotFound err, w)
          | Inr netw \<Rightarrow>
             (case p of
                None \<Rightarrow> (RespPanic, w)
              | Some req \<Rightarrow>
                 (case DB_GetContainerByNameOrID (DB w) (NetworkConnectRequest.Container req) of
                    Inl err \<Rightarrow> (RespError StatusNotFound err, w)
                  | Inr tainr \<Rightarrow>
                     (let tainr1 = ConnectNetwork tainr (Network.ID netw);
                          done = fold (\<lambda>a d. d(a \<mapsto> a)) (NetworkAliases tainr1) Map.empty;
                          (tainr2, done2) =
                             NetworkConnect_aliases ToLower (Aliases req) tainr1 done
                      in case DB_SaveContainer (DB w) tainr2 of
                           Inl err \<Rightarrow> (RespError StatusInternalServerError err, w)
                         | Inr db' \<Rightarrow>
                             (RespJSON StatusOK (JObject []), w\<lparr>DB := db'\<rparr>))))))"

definition NetworkDisconnect ::
  "(Network \<Rightarrow> bool) \<Rightarrow> string \<Rightarrow> error + NetworkDisconnectRequest option \<Rightarrow> world
     \<Rightarrow> response \<times> world" where
  "NetworkDisconnect IsPredefined i body w =
     (case body of
        Inl err \<Rightarrow> (RespError StatusInternalServerError err, w)
      | Inr p \<Rightarrow>
         (case DB_GetNetworkByNameOrID (DB w) i of
            Inl err \<Rightarrow> (RespError StatusNotFound err, w)
          | Inr netw \<Rightarrow>
             (case p of
                None \<Rightarrow> (RespPanic, w)
              | Some req \<Rightarrow>
                 (case DB_GetContainerByNameOrID (DB w)
                         (NetworkDisconnectRequest.Container req) of
                    Inl err \<Rightarrow> (RespError StatusNotFound err, w)
                  | Inr tainr \<Rightarrow>
                     if IsPredefined netw
                     then (RespError StatusInternalServerError
                             (Errorf ''cannot disconnect from predefined network''), w)
                     else (case DisconnectNetwork tainr (Network.ID netw) of
                             Inl err \<Rightarrow> (RespError StatusNotFound err, w)
                           | Inr tainr1 \<Rightarrow>
                              (case DB_SaveContainer (DB w) tainr1 of
                                 Inl err \<Rightarrow> (RespError StatusInternalServerError err, w)
                               | Inr db' \<Rightarrow> (RespStatus StatusOK, w\<lparr>DB := db'\<rparr>)))))))"

text \<open>
  The loop of \<open>NetworkPrune\<close> over the listed networks; \<open>Inl\<close> is the error that made
  the handler return from inside the loop.
\<close>

fun NetworkPrune_loop ::
  "(Network \<Rightarrow> bool) \<Rightarrow> Network list \<Rightarrow> json list \<Rightarrow> world \<Rightarrow> (error + json list) \<times> world" where
  "NetworkPrune_loop IsPredefined [] pruned w = (Inr pruned, w)"
| "NetworkPrune_loop IsPredefined (netw # netws) pruned w =
     (if IsPredefined netw then NetworkPrune_loop IsPredefined netws pruned w
      else (let (res, w1) = getContainersInNetwork w netw
            in if length res \<noteq> 0 then NetworkPrune_loop IsPredefined netws pruned w1
               else (case DB_DeleteNetwork (DB w1) netw of
                       Inl err \<Rightarrow> (Inl err, w1)
                     | Inr db' \<Rightarrow>
                         NetworkPrune_loop IsPredefined netws
                           (pruned @ [networkToLibpodJSON netw]) (w1\<lparr>DB := db'\<rparr>))))"

definition NetworkPrune :: "(Network \<Rightarrow> bool) \<Rightarrow> world \<Rightarrow> response \<times> world" where
  "NetworkPrune IsPredefined w =
     (case DB_GetNetworks (DB w) of
        Inl err \<Rightarrow> (RespError StatusInternalServerError err, w)
      | Inr netws \<Rightarrow>
         (case NetworkPrune_loop IsPredefined netws [] w of
            (Inl err, w') \<Rightarrow> (RespError StatusNotFound err, w')
          | (Inr pruned, w') \<Rightarrow> (RespJSON StatusOK (JArray pruned), w')))"

section \<open>Sample inputs\<close>

text \<open>
  Concrete values for the parameters, used where a statement is evaluated on an input.
  \<open>asciiToLower\<close> is what \<open>strings.ToLower\<close> does on a string of ASCII bytes.
\<close>

definition asciiToLower :: "string \<Rightarrow> string" where
  "asciiToLower s =
     map (\<lambda>c. let n = (of_char c :: nat) in if 65 \<le> n \<and> n \<le> 90 then char_of (n + 32) else c) s"

text \<open>
  The answers of \<open>regexp.MatchString\<close> on the patterns that \<open>TestVolumeMatch\<close> tries
  against the name \<open>myvolume\<close>, and on the pattern \<open>(\<close>, which does not compile.
\<close>

definition sample_MatchString :: "string \<Rightarrow> string \<Rightarrow> error + bool" where
  "sample_MatchString pattern s =
     (if pattern = ''('' then Inl (Errorf ''error parsing regexp: missing closing )'')
      else Inr (pattern = ''my.*'' \<and> s = ''myvolume''))"

definition sample_volume :: Volume where
  "sample_volume =
     \<lparr>Volume.ID = ''4f1c2a9d77e0b6a1'', ShortID = ''4f1c2a9d77e0'',
      Volume.Name = ''myvolume'', Volume.Driver = ''local'',
      Volume.Labels = Some [''env'' \<mapsto> ''test''],
      Mountpoint = ''/var/lib/kubedock/volumes/myvolume'', Volume.Created = 1700000000\<rparr>"

definition other_volume :: Volume where
  "other_volume =
     \<lparr>Volume.ID = ''9b3e5d20c4a8f713'', ShortID = ''9b3e5d20c4a8'',
      Volume.Name = ''cache'', Volume.Driver = ''local'',
      Volume.Labels = None, Mountpoint = [], Volume.Created = 1700000060\<rparr>"

text \<open>
  A platform on which the claims of all volumes already exist at creation and are
  already gone at deletion, and one on which every call fails for another reason.
\<close>

definition converged_cli :: "call list \<Rightarrow> call \<Rightarrow> error option" where
  "converged_cli history c =
     (case c of
        CreatePVC ns pvc \<Rightarrow> Some (StatusError StatusReasonAlreadyExists ''already exists'')
      | DeletePVC ns name \<Rightarrow> Some (StatusError StatusReasonNotFound ''not found''))"

definition failing_cli :: "call list \<Rightarrow> call \<Rightarrow> error option" where
  "failing_cli history c = Some (StatusError StatusReasonOther ''connection refused'')"

definition sample_backend :: "(call list \<Rightarrow> call \<Rightarrow> error option) \<Rightarrow> backend" where
  "sample_backend answers =
     \<lparr>cli = answers, namespace = ''kubedock'', volumeAccessMode = ''RWX'',
      volumeSize = ''1Gi'', storageClass = ''gp3-csi'', toKubernetesName = (\<lambda>s. s)\<rparr>"

definition sample_pkgs :: pkgs where
  "sample_pkgs =
     \<lparr>SystemLabels = [''kubedock'' \<mapsto> ''true''], DefaultLabels = Map.empty,
      DefaultAnnotations = Map.empty,
      MustParse = (\<lambda>s. if s = ''1Gi'' then Some (Quantity 1073741824) else None)\<rparr>"

definition sample_stamp :: stamp where
  "sample_stamp = \<lparr>NewID = ''c0ffee0123456789'', ShortLen = 12, Now = 1700000120\<rparr>"

text \<open>
  A store with the predefined network \<open>bridge\<close>, a user network \<open>backend\<close>, and two
  containers: \<open>web\<close> attached to both networks, \<open>job\<close> attached to \<open>bridge\<close> only.
\<close>

definition sample_IsPredefined :: "Network \<Rightarrow> bool" where
  "sample_IsPredefined netw = (Network.Name netw = ''bridge'')"

definition bridge_network :: Network where
  "bridge_network =
     \<lparr>Network.ID = ''n0'', Network.Name = ''bridge'', Network.Labels = None,
      Network.Created = 1700000000\<rparr>"

definition backend_network :: Network where
  "backend_network =
     \<lparr>Network.ID = ''n1'', Network.Name = ''backend'', Network.Labels = None,
      Network.Created = 1700000010\<rparr>"

definition idle_network :: Network where
  "idle_network =
     \<lparr>Network.ID = ''n2'', Network.Name = ''idle'', Network.Labels = None,
      Network.Created = 1700000020\<rparr>"

definition web_container :: Container where
  "web_container =
     \<lparr>Container.ID = ''c1'', Container.Name = ''web'', Networks = {''n0'', ''n1''},
      NetworkAliases = []\<rparr>"

definition job_container :: Container where
  "job_container =
     \<lparr>Container.ID = ''c2'', Container.Name = ''job'', Networks = {''n0''},
      NetworkAliases = [''worker'']\<rparr>"

definition sample_world :: world where
  "sample_world =
     \<lparr>DB = \<lparr>networks = [bridge_network, backend_network, idle_network],
            containers = [web_container, job_container],
            volumes = [sample_volume, other_volume]\<rparr>,
      Calls = [], Klog = []\<rparr>"

text \<open>A volume name too long for a claim name.\<close>

definition long_name :: string where
  "long_name = ''postgres-data-for-the-integration-tests-of-the-billing-service''"

section \<open>Auxiliary definitions for the proofs\<close>

text \<open>
  One turn of the two volume prune loops, cut in two: the state after the backend call
  and its warning, and the state after the store deletion that follows.
\<close>

definition after_backend_delete :: "backend \<Rightarrow> Volume \<Rightarrow> world \<Rightarrow> world" where
  "after_backend_delete be vol w =
     (case DeleteVolume be vol w of
        (Some err, w1) \<Rightarrow>
           w1\<lparr>Klog := Klog w1 @
             [KWarning (''error deleting k8s PVC for volume '' @ Volume.Name vol
                @ '': '' @ ErrorString err)]\<rparr>
      | (None, w1) \<Rightarrow> w1)"

definition after_store_delete :: "Volume \<Rightarrow> world \<Rightarrow> world" where
  "after_store_delete vol w =
     (case DB_DeleteVolume (DB w) vol of
        Inl err \<Rightarrow>
          w\<lparr>Klog := Klog w @
             [KWarning (''error deleting volume '' @ Volume.Name vol
                @ '' from db: '' @ ErrorString err)]\<rparr>
      | Inr db' \<Rightarrow> w\<lparr>DB := db'\<rparr>)"

text \<open>
  The common shape of the two loops: \<open>item\<close> is what a loop appends for a volume whose
  store deletion succeeded.
\<close>

fun prune_loop ::
  "(Volume \<Rightarrow> 'a) \<Rightarrow> backend \<Rightarrow> Volume list \<Rightarrow> 'a list \<Rightarrow> world \<Rightarrow> 'a list \<times> world" where
  "prune_loop item be [] items w = (items, w)"
| "prune_loop item be (vol # vols) items w =
     (let w2 = after_backend_delete be vol w
      in prune_loop item be vols
           (case DB_DeleteVolume (DB w2) vol of
              Inl err \<Rightarrow> items | Inr db' \<Rightarrow> items @ [item vol])
           (after_store_delete vol w2))"

text \<open>The platform call that deletes the claim of a volume.\<close>

definition delete_call :: "backend \<Rightarrow> Volume \<Rightarrow> call" where
  "delete_call be vol = DeletePVC (namespace be) (getVolumePVCName be vol)"

text \<open>Some container of the store has the network's ID in its membership set.\<close>

definition attached :: "Database \<Rightarrow> Network \<Rightarrow> bool" where
  "attached db netw = (\<exists>tainr \<in> set (containers db). Network.ID netw \<in> Networks tainr)"

text \<open>
  Merging aliases as a function of lists: of the new aliases, in order, those that are
  neither among the ones seen nor an earlier new one.
\<close>

fun fresh_aliases :: "string list \<Rightarrow> string list \<Rightarrow> string list" where
  "fresh_aliases seen [] = []"
| "fresh_aliases seen (a # as) =
     (if a \<in> set seen then fresh_aliases seen as else a # fresh_aliases (a # seen) as)"

section \<open>Volume filters\<close>

text \<open>
  Claim C6. For every volume \<open>v\<close> and key, \<open>v.Match("name", key, "")\<close> is true
  without an error when the key equals the volume's name (the fast path, whatever the
  key looks like as a pattern); otherwise its result is the answer of the regular
  expression match of the key against the name: true exactly when the pattern matches,
  and false together with the error when the pattern does not compile.
\<close>

theorem Match_name:
  "(key = Volume.Name v \<longrightarrow> Match rx v ''name'' key val = (True, None)) \<and>
   (key \<noteq> Volume.Name v \<longrightarrow>
      Match rx v ''name'' key val =
        (case rx key (Volume.Name v) of
           Inr matched \<Rightarrow> (matched, None)
         | Inl err \<Rightarrow> (False, Some err)))"
  by (auto simp: Match_def nameMatch_def)

theorem Match_name_witness:
  "Match sample_MatchString sample_volume ''name'' ''myvolume'' [] = (True, None) \<and>
   Match sample_MatchString sample_volume ''name'' ''my.*'' [] = (True, None) \<and>
   Match sample_MatchString sample_volume ''name'' ''other'' [] = (False, None) \<and>
   Match sample_MatchString sample_volume ''name'' ''('' [] =
     (False, Some (Errorf ''error parsing regexp: missing closing )''))"
  using Match_name [of "''myvolume''" sample_volume sample_MatchString "[]"]
    Match_name [of "''my.*''" sample_volume sample_MatchString "[]"]
    Match_name [of "''other''" sample_volume sample_MatchString "[]"]
    Match_name [of "''(''" sample_volume sample_MatchString "[]"]
  by (simp add: sample_MatchString_def sample_volume_def)

text \<open>
  Claim C7. For every volume \<open>v\<close>: a \<open>driver\<close> filter matches exactly when the key
  equals the volume's driver; a \<open>label\<close> filter matches exactly when the volume's labels
  hold the key with the given value (a nil map, a missing key or another value is no
  match); and every filter type other than \<open>name\<close>, \<open>driver\<close> and \<open>label\<close> matches
  without an error.
\<close>

theorem Match_driver_label_unknown:
  "Match rx v ''driver'' k val = (k = Volume.Driver v, None) \<and>
   Match rx v ''label'' k val =
     ((\<exists>labels. Volume.Labels v = Some labels \<and> labels k = Some val), None) \<and>
   (t \<noteq> ''name'' \<and> t \<noteq> ''driver'' \<and> t \<noteq> ''label'' \<longrightarrow> Match rx v t k val = (True, None))"
  by (auto simp: Match_def index_def split: option.splits)

theorem Match_driver_label_unknown_witness:
  "Match sample_MatchString sample_volume ''unknown'' ''foo'' ''bar'' = (True, None) \<and>
   Match sample_MatchString sample_volume ''driver'' ''local'' [] = (True, None) \<and>
   Match sample_MatchString sample_volume ''driver'' ''nfs'' [] = (False, None) \<and>
   Match sample_MatchString sample_volume ''label'' ''env'' ''test'' = (True, None) \<and>
   Match sample_MatchString sample_volume ''label'' ''env'' ''prod'' = (False, None) \<and>
   Match sample_MatchString sample_volume ''label'' ''missing'' ''test'' = (False, None) \<and>
   Match sample_MatchString other_volume ''label'' ''env'' ''test'' = (False, None)"
  using Match_driver_label_unknown [of sample_MatchString sample_volume "''foo''" "''bar''" "''unknown''"]
    Match_driver_label_unknown [of sample_MatchString sample_volume "''local''" "[]" "''unknown''"]
    Match_driver_label_unknown [of sample_MatchString sample_volume "''nfs''" "[]" "''unknown''"]
    Match_driver_label_unknown [of sample_MatchString sample_volume "''env''" "''test''" "''unknown''"]
    Match_driver_label_unknown [of sample_MatchString sample_volume "''env''" "''prod''" "''unknown''"]
    Match_driver_label_unknown [of sample_MatchString sample_volume "''missing''" "''test''" "''unknown''"]
    Match_driver_label_unknown [of sample_MatchString other_volume "''env''" "''test''" "''unknown''"]
  by (simp add: sample_volume_def other_volume_def)

section \<open>The backend: claims for volumes\<close>

lemma getVolumePVCName_take:
  "getVolumePVCName inst v = take 63 (''kubedock-vol-'' @ toKubernetesName inst (Volume.Name v))"
  by (simp add: getVolumePVCName_def Let_def)

lemma CreateVolume_pvc_Name:
  "PersistentVolumeClaim.Name (CreateVolume_pvc pk inst v q) = getVolumePVCName inst v"
  by (simp add: CreateVolume_pvc_def Let_def)

lemma CreateVolume_Calls:
  "CreateVolume pk inst v w = Returns (r, v1, w1) \<Longrightarrow>
     \<exists>q. MustParse pk (volumeSize inst) = Some q \<and>
         Calls w1 = Calls w @ [CreatePVC (namespace inst) (CreateVolume_pvc pk inst v q)] \<and>
         DB w1 = DB w"
  by (auto simp: CreateVolume_def Let_def split: option.splits if_splits)

lemma CreateVolume_returns:
  "MustParse pk (volumeSize inst) = Some q \<Longrightarrow> \<exists>r v1 w1. CreateVolume pk inst v w = Returns (r, v1, w1)"
  by (simp add: CreateVolume_def Let_def)

lemma DeleteVolume_Calls:
  "Calls (snd (DeleteVolume inst v w)) =
     Calls w @ [DeletePVC (namespace inst) (getVolumePVCName inst v)]"
  by (simp add: DeleteVolume_def Let_def)

lemma DeleteVolume_DB: "DB (snd (DeleteVolume inst v w)) = DB w"
  by (simp add: DeleteVolume_def Let_def)

text \<open>
  Claim C8. The name of the claim that backs a volume is a function of the volume's name
  alone: volumes with equal names get the same claim name, the name is the prefixed
  form cut to at most 63 characters, and nothing stores it: creating a volume sends a
  claim that carries this name and deleting a volume deletes the claim of this name,
  computed from the volume each time.
\<close>

theorem getVolumePVCName_deterministic:
  "(Volume.Name v = Volume.Name v' \<longrightarrow> getVolumePVCName inst v = getVolumePVCName inst v') \<and>
   length (getVolumePVCName inst v) \<le> 63 \<and>
   getVolumePVCName inst v = take 63 (''kubedock-vol-'' @ toKubernetesName inst (Volume.Name v)) \<and>
   (MustParse pk (volumeSize inst) = Some q \<longrightarrow>
      (\<exists>r v1 w1. CreateVolume pk inst v w = Returns (r, v1, w1) \<and>
         Calls w1 = Calls w @ [CreatePVC (namespace inst) (CreateVolume_pvc pk inst v q)] \<and>
         PersistentVolumeClaim.Name (CreateVolume_pvc pk inst v q) = getVolumePVCName inst v)) \<and>
   Calls (snd (DeleteVolume inst v w)) =
     Calls w @ [DeletePVC (namespace inst) (getVolumePVCName inst v)]"
proof -
  have "MustParse pk (volumeSize inst) = Some q \<Longrightarrow>
      (\<exists>r v1 w1. CreateVolume pk inst v w = Returns (r, v1, w1) \<and>
         Calls w1 = Calls w @ [CreatePVC (namespace inst) (CreateVolume_pvc pk inst v q)])"
    using CreateVolume_returns [of pk inst q v w] CreateVolume_Calls [of pk inst v w] by fastforce
  then show ?thesis
    by (simp add: getVolumePVCName_take CreateVolume_pvc_Name DeleteVolume_Calls)
qed

theorem getVolumePVCName_deterministic_witness:
  "getVolumePVCName (sample_backend converged_cli) (sample_volume\<lparr>Volume.Name := long_name\<rparr>) =
     getVolumePVCName (sample_backend converged_cli) (other_volume\<lparr>Volume.Name := long_name\<rparr>) \<and>
   getVolumePVCName (sample_backend converged_cli) (sample_volume\<lparr>Volume.Name := long_name\<rparr>) =
     ''kubedock-vol-postgres-data-for-the-integration-tests-of-the-bil'' \<and>
   length ''kubedock-vol-postgres-data-for-the-integration-tests-of-the-bil'' = 63 \<and>
   (\<exists>r v1 w1.
      CreateVolume sample_pkgs (sample_backend converged_cli)
        (sample_volume\<lparr>Volume.Name := long_name\<rparr>) sample_world = Returns (r, v1, w1) \<and>
      Calls w1 =
        [CreatePVC ''kubedock''
           (CreateVolume_pvc sample_pkgs (sample_backend converged_cli)
              (sample_volume\<lparr>Volume.Name := long_name\<rparr>) (Quantity 1073741824))])"
  using getVolumePVCName_deterministic
    [of "sample_volume\<lparr>Volume.Name := long_name\<rparr>" "other_volume\<lparr>Volume.Name := long_name\<rparr>"
        "sample_backend converged_cli" sample_pkgs "Quantity 1073741824" sample_world]
  by (auto simp: sample_backend_def long_name_def sample_pkgs_def sample_world_def)

lemma DeleteVolume_Klog_prefix: "\<exists>ls. Klog (snd (DeleteVolume inst v w)) = Klog w @ ls"
  by (simp add: DeleteVolume_def Let_def)

text \<open>
  Claim C3. For every volume, once the claim is built and sent: \<open>CreateVolume\<close>
  returns a nil error when the platform answers that the claim already exists; on every
  return with a nil error the volume's mount point is the fixed prefix followed by its
  name; and a platform error of any other kind is returned to the caller, wrapped.
\<close>

theorem CreateVolume_already_exists:
  assumes "MustParse pk (volumeSize inst) = Some q"
  shows
    "(cli inst (Calls w) (CreatePVC (namespace inst) (CreateVolume_pvc pk inst v q)) = Some e \<and>
        IsAlreadyExists e \<longrightarrow>
      (\<exists>w1. CreateVolume pk inst v w =
               Returns (None, v\<lparr>Mountpoint := ''/var/lib/kubedock/volumes/'' @ Volume.Name v\<rparr>, w1))) \<and>
     (\<forall>v1 w1. CreateVolume pk inst v w = Returns (None, v1, w1) \<longrightarrow>
        Mountpoint v1 = ''/var/lib/kubedock/volumes/'' @ Volume.Name v1 \<and>
        Volume.Name v1 = Volume.Name v) \<and>
     (cli inst (Calls w) (CreatePVC (namespace inst) (CreateVolume_pvc pk inst v q)) = Some e' \<and>
        \<not> IsAlreadyExists e' \<longrightarrow>
      (\<exists>w1. CreateVolume pk inst v w =
               Returns (Some (ErrorfW (''failed to create PVC for volume '' @ Volume.Name v @ '': '') e'),
                        v, w1)))"
  using assms by (auto simp: CreateVolume_def Let_def)

theorem CreateVolume_already_exists_witness:
  "(\<exists>w1. CreateVolume sample_pkgs (sample_backend converged_cli) other_volume sample_world =
      Returns (None, other_volume\<lparr>Mountpoint := ''/var/lib/kubedock/volumes/cache''\<rparr>, w1)) \<and>
   (\<exists>w1. CreateVolume sample_pkgs (sample_backend failing_cli) other_volume sample_world =
      Returns (Some (ErrorfW ''failed to create PVC for volume cache: ''
                       (StatusError StatusReasonOther ''connection refused'')),
               other_volume, w1))"
proof -
  have parse: "MustParse sample_pkgs (volumeSize (sample_backend c)) = Some (Quantity 1073741824)" for c
    by (simp add: sample_pkgs_def sample_backend_def)
  have exists: "IsAlreadyExists (StatusError StatusReasonAlreadyExists ''already exists'')"
    and other: "\<not> IsAlreadyExists (StatusError StatusReasonOther ''connection refused'')"
    by (simp_all add: IsAlreadyExists_def)
  have a: "cli (sample_backend converged_cli) cs (CreatePVC ns pvc) =
             Some (StatusError StatusReasonAlreadyExists ''already exists'')" for cs ns pvc
    by (simp add: sample_backend_def converged_cli_def)
  have b: "cli (sample_backend failing_cli) cs c =
             Some (StatusError StatusReasonOther ''connection refused'')" for cs c
    by (simp add: sample_backend_def failing_cli_def)
  have n: "Volume.Name other_volume = ''cache''"
    by (simp add: other_volume_def)
  show ?thesis
    using CreateVolume_already_exists [OF parse, of converged_cli sample_world other_volume
        "StatusError StatusReasonAlreadyExists ''already exists''"
        "StatusError StatusReasonOther ''connection refused''"]
      CreateVolume_already_exists [OF parse, of failing_cli sample_world other_volume
        "StatusError StatusReasonAlreadyExists ''already exists''"
        "StatusError StatusReasonOther ''connection refused''"]
    by (simp add: a b exists other n)
qed

section \<open>The volume endpoints\<close>

lemma GetVolumeByNameOrID_mem:
  "DB_GetVolumeByNameOrID db i = Inr vol \<Longrightarrow> vol \<in> set (volumes db)"
  by (auto simp: DB_GetVolumeByNameOrID_def DB_GetVolumeByName_def find_Some_iff
      split: option.splits)

lemma DB_DeleteVolume_present:
  "vol \<in> set (volumes db) \<Longrightarrow>
     DB_DeleteVolume db vol =
       Inr (db\<lparr>volumes := filter (\<lambda>u. Volume.ID u \<noteq> Volume.ID vol) (volumes db)\<rparr>)"
  by (auto simp: DB_DeleteVolume_def)

lemma libpod_VolumeDelete_eq: "libpod_VolumeDelete = docker_VolumeDelete"
  by (intro ext) (simp add: libpod_VolumeDelete_def docker_VolumeDelete_def)

lemma docker_VolumeDelete_found:
  assumes "DB_GetVolumeByNameOrID (DB w) i = Inr vol"
  shows "\<exists>w'. docker_VolumeDelete be i w = (RespStatus StatusNoContent, w') \<and>
           volumes (DB w') = filter (\<lambda>u. Volume.ID u \<noteq> Volume.ID vol) (volumes (DB w)) \<and>
           Calls w' = Calls w @ [DeletePVC (namespace be) (getVolumePVCName be vol)] \<and>
           (\<forall>err. fst (DeleteVolume be vol w) = Some err \<longrightarrow>
              KWarning (''error deleting k8s PVC for volume: '' @ ErrorString err) \<in> set (Klog w'))"
proof -
  obtain berr w1 where d: "DeleteVolume be vol w = (berr, w1)"
    by (cases "DeleteVolume be vol w")
  have db1: "DB w1 = DB w" and c1: "Calls w1 = Calls w @ [DeletePVC (namespace be) (getVolumePVCName be vol)]"
    using DeleteVolume_DB [of be vol w] DeleteVolume_Calls [of be vol w] d by simp_all
  have mem: "vol \<in> set (volumes (DB w))"
    using assms by (rule GetVolumeByNameOrID_mem)
  show ?thesis
    using assms d db1 c1 DB_DeleteVolume_present [OF mem]
    by (cases berr) (simp_all add: docker_VolumeDelete_def)
qed


text \<open>
  Claim C9. \<open>DeleteVolume\<close> returns a nil error when the platform answers that the
  claim is not found. In the volume delete endpoint of either package, a volume that
  resolves is removed from the store and the response is 204 whatever the platform
  answered; a failure of the backend is logged as a warning.
\<close>

theorem DeleteVolume_not_found:
  "(cli inst (Calls w) (DeletePVC (namespace inst) (getVolumePVCName inst v)) = Some e \<and>
      IsNotFound e \<longrightarrow> fst (DeleteVolume inst v w) = None) \<and>
   (DB_GetVolumeByNameOrID (DB w) i = Inr vol \<longrightarrow>
      (\<exists>w'. docker_VolumeDelete be i w = (RespStatus StatusNoContent, w') \<and>
         libpod_VolumeDelete be i w = (RespStatus StatusNoContent, w') \<and>
         volumes (DB w') = filter (\<lambda>u. Volume.ID u \<noteq> Volume.ID vol) (volumes (DB w)) \<and>
         Calls w' = Calls w @ [DeletePVC (namespace be) (getVolumePVCName be vol)] \<and>
         (\<forall>err. fst (DeleteVolume be vol w) = Some err \<longrightarrow>
            KWarning (''error deleting k8s PVC for volume: '' @ ErrorString err) \<in> set (Klog w'))))"
proof -
  have "cli inst (Calls w) (DeletePVC (namespace inst) (getVolumePVCName inst v)) = Some e \<Longrightarrow>
      IsNotFound e \<Longrightarrow> fst (DeleteVolume inst v w) = None"
    by (simp add: DeleteVolume_def Let_def)
  then show ?thesis
    using docker_VolumeDelete_found [of w i vol be] by (auto simp: libpod_VolumeDelete_eq)
qed

theorem DeleteVolume_not_found_witness:
  "fst (DeleteVolume (sample_backend converged_cli) sample_volume sample_world) = None \<and>
   DB_GetVolumeByNameOrID (DB sample_world) ''myvolume'' = Inr sample_volume \<and>
   fst (DeleteVolume (sample_backend failing_cli) sample_volume sample_world) =
     Some (ErrorfW ''failed to delete PVC for volume myvolume: ''
             (StatusError StatusReasonOther ''connection refused'')) \<and>
   (\<exists>w'. docker_VolumeDelete (sample_backend failing_cli) ''myvolume'' sample_world =
            (RespStatus StatusNoContent, w') \<and>
          libpod_VolumeDelete (sample_backend failing_cli) ''myvolume'' sample_world =
            (RespStatus StatusNoContent, w') \<and>
          volumes (DB w') = [other_volume] \<and>
          Calls w' = [DeletePVC ''kubedock'' ''kubedock-vol-myvolume''] \<and>
          KWarning (''error deleting k8s PVC for volume: failed to delete PVC for volume myvolume: connection refused'')
            \<in> set (Klog w'))"
proof -
  have nf: "IsNotFound (StatusError StatusReasonNotFound ''not found'')"
    by (simp add: IsNotFound_def)
  have a: "cli (sample_backend converged_cli) cs (DeletePVC ns n) =
             Some (StatusError StatusReasonNotFound ''not found'')" for cs ns n
    by (simp add: sample_backend_def converged_cli_def)
  have g: "DB_GetVolumeByNameOrID (DB sample_world) ''myvolume'' = Inr sample_volume"
    by (simp add: sample_world_def DB_GetVolumeByNameOrID_def DB_GetVolumeByName_def
        sample_volume_def other_volume_def)
  have f: "fst (DeleteVolume (sample_backend failing_cli) sample_volume sample_world) =
     Some (ErrorfW ''failed to delete PVC for volume myvolume: ''
             (StatusError StatusReasonOther ''connection refused''))"
    by (simp add: DeleteVolume_def Let_def sample_backend_def failing_cli_def IsNotFound_def
        sample_volume_def)
  have ids: "Volume.ID other_volume \<noteq> Volume.ID sample_volume"
    by (simp add: sample_volume_def other_volume_def)
  have pn: "getVolumePVCName (sample_backend c) sample_volume = ''kubedock-vol-myvolume''" for c
    by (simp add: getVolumePVCName_def sample_backend_def sample_volume_def)
  have ns: "namespace (sample_backend c) = ''kubedock''" for c
    by (simp add: sample_backend_def)
  have vs: "volumes (DB sample_world) = [sample_volume, other_volume]" and cs: "Calls sample_world = []"
    by (simp_all add: sample_world_def)
  show ?thesis
    using DeleteVolume_not_found [of "sample_backend converged_cli" sample_world sample_volume
        "StatusError StatusReasonNotFound ''not found''" "''myvolume''" sample_volume
        "sample_backend failing_cli"]
    by (simp add: nf a g f ids pn ns vs cs)
qed

subsection \<open>Prune\<close>

lemma DeleteVolume_error:
  "fst (DeleteVolume inst v w) =
     (case cli inst (Calls w) (DeletePVC (namespace inst) (getVolumePVCName inst v)) of
        None \<Rightarrow> None
      | Some e \<Rightarrow> if IsNotFound e then None
                  else Some (ErrorfW (''failed to delete PVC for volume '' @ Volume.Name v @ '': '') e))"
  by (simp add: DeleteVolume_def Let_def split: option.splits)

lemma after_backend_delete_DB [simp]: "DB (after_backend_delete be vol w) = DB w"
  using DeleteVolume_DB [of be vol w]
  by (auto simp: after_backend_delete_def split: prod.splits option.splits)

lemma after_backend_delete_Calls [simp]:
  "Calls (after_backend_delete be vol w) = Calls w @ [delete_call be vol]"
  using DeleteVolume_Calls [of be vol w]
  by (auto simp: after_backend_delete_def delete_call_def split: prod.splits option.splits)

lemma after_backend_delete_Klog:
  "\<exists>ls. Klog (after_backend_delete be vol w) = Klog w @ ls"
  using DeleteVolume_Klog_prefix [of be vol w]
  by (auto simp: after_backend_delete_def split: prod.splits option.splits)

lemma after_backend_delete_warns:
  "cli be (Calls w) (delete_call be vol) = Some e \<Longrightarrow> \<not> IsNotFound e \<Longrightarrow>
   KWarning (''error deleting k8s PVC for volume '' @ Volume.Name vol @ '': ''
       @ ''failed to delete PVC for volume '' @ Volume.Name vol @ '': '' @ ErrorString e)
     \<in> set (Klog (after_backend_delete be vol w))"
  using DeleteVolume_error [of be vol w]
  by (auto simp: after_backend_delete_def delete_call_def split: prod.splits option.splits)

lemma filter_keys_absent:
  assumes "f x \<notin> f ` set vs"
  shows "filter (\<lambda>u. f u \<notin> f ` set (x # ys)) vs = filter (\<lambda>u. f u \<notin> f ` set ys) vs"
proof (rule filter_cong [OF refl])
  fix u
  assume "u \<in> set vs"
  then have "f u \<noteq> f x"
    using assms by (metis imageI)
  then show "(f u \<notin> f ` set (x # ys)) = (f u \<notin> f ` set ys)"
    by simp
qed

lemma filter_key_absent:
  assumes "f x \<notin> f ` set vs"
  shows "filter (\<lambda>u. f u \<noteq> f x) vs = vs"
  unfolding filter_id_conv using assms by (metis imageI)

lemma filter_keys_filter:
  "filter (\<lambda>u. f u \<notin> f ` set ys) (filter (\<lambda>u. f u \<noteq> f x) vs) =
     filter (\<lambda>u. f u \<notin> f ` set (x # ys)) vs"
  by (induction vs) auto

lemma keys_subset_filter:
  "distinct (map f (x # ys)) \<Longrightarrow> f ` set (x # ys) \<subseteq> f ` set vs \<Longrightarrow>
     f ` set ys \<subseteq> f ` set (filter (\<lambda>u. f u \<noteq> f x) vs)"
  by (auto simp: image_iff subset_iff) metis

lemma DB_DeleteVolume_Inl:
  "DB_DeleteVolume db vol = Inl err \<Longrightarrow> Volume.ID vol \<notin> Volume.ID ` set (volumes db)"
  by (force simp: DB_DeleteVolume_def split: if_splits)

lemma DB_DeleteVolume_Inr:
  "DB_DeleteVolume db vol = Inr db' \<Longrightarrow>
     Volume.ID vol \<in> Volume.ID ` set (volumes db) \<and>
     db' = db\<lparr>volumes := filter (\<lambda>u. Volume.ID u \<noteq> Volume.ID vol) (volumes db)\<rparr>"
  by (auto simp: DB_DeleteVolume_def split: if_splits intro: rev_image_eqI)

lemma DB_DeleteVolume_present_iff:
  "(\<exists>db'. DB_DeleteVolume db vol = Inr db') \<longleftrightarrow> Volume.ID vol \<in> Volume.ID ` set (volumes db)"
  using DB_DeleteVolume_Inl [of db vol] DB_DeleteVolume_Inr [of db vol]
  by (cases "DB_DeleteVolume db vol") auto

lemma after_store_delete_volumes:
  "volumes (DB (after_store_delete vol w)) =
     filter (\<lambda>u. Volume.ID u \<noteq> Volume.ID vol) (volumes (DB w))"
proof (cases "DB_DeleteVolume (DB w) vol")
  case (Inl err)
  then show ?thesis
    using filter_key_absent [OF DB_DeleteVolume_Inl [OF Inl]]
    by (simp add: after_store_delete_def)
next
  case (Inr db')
  then show ?thesis
    using DB_DeleteVolume_Inr [OF Inr] by (simp add: after_store_delete_def)
qed

lemma after_store_delete_others [simp]:
  "networks (DB (after_store_delete vol w)) = networks (DB w)"
  "containers (DB (after_store_delete vol w)) = containers (DB w)"
  "Calls (after_store_delete vol w) = Calls w"
  using DB_DeleteVolume_Inr [of "DB w" vol]
  by (cases "DB_DeleteVolume (DB w) vol"; simp add: after_store_delete_def)+

lemma after_store_delete_Klog:
  "\<exists>ls. Klog (after_store_delete vol w) = Klog w @ ls"
  by (cases "DB_DeleteVolume (DB w) vol") (simp_all add: after_store_delete_def)

lemma docker_loop_prune_loop:
  "docker_VolumesPrune_loop be vols names w = prune_loop Volume.Name be vols names w"
  by (induction vols arbitrary: names w)
    (auto simp: after_backend_delete_def after_store_delete_def Let_def
      split: prod.splits option.splits sum.splits)

lemma libpod_loop_prune_loop:
  "libpod_VolumePrune_loop be vols pruned w =
     prune_loop (\<lambda>vol. JObject [(''Id'', JString (Volume.ID vol)), (''Size'', JNumber 0)])
       be vols pruned w"
  by (induction vols arbitrary: pruned w)
    (auto simp: after_backend_delete_def after_store_delete_def Let_def
      split: prod.splits option.splits sum.splits)

lemma prune_loop_state:
  "snd (prune_loop item be vols items w) = snd (prune_loop item' be vols items' w) \<and>
   volumes (DB (snd (prune_loop item be vols items w))) =
     filter (\<lambda>u. Volume.ID u \<notin> Volume.ID ` set vols) (volumes (DB w)) \<and>
   networks (DB (snd (prune_loop item be vols items w))) = networks (DB w) \<and>
   containers (DB (snd (prune_loop item be vols items w))) = containers (DB w) \<and>
   Calls (snd (prune_loop item be vols items w)) = Calls w @ map (delete_call be) vols \<and>
   (\<exists>ls. Klog (snd (prune_loop item be vols items w)) = Klog w @ ls)"
proof (induction vols arbitrary: items items' w)
  case Nil
  then show ?case by simp
next
  case (Cons vol vols)
  let ?w3 = "after_store_delete vol (after_backend_delete be vol w)"
  obtain ls where "Klog ?w3 = Klog w @ ls"
    using after_store_delete_Klog [of vol "after_backend_delete be vol w"]
      after_backend_delete_Klog [of be vol w] by auto
  moreover have "volumes (DB ?w3) = filter (\<lambda>u. Volume.ID u \<noteq> Volume.ID vol) (volumes (DB w))"
    by (simp add: after_store_delete_volumes)
  ultimately show ?case
    using Cons.IH [of _ ?w3]
      filter_keys_filter [of Volume.ID vols vol "volumes (DB w)"]
    by (auto simp: Let_def)
qed

lemma prune_loop_items:
  "distinct (map Volume.ID vols) \<Longrightarrow>
   Volume.ID ` set vols \<subseteq> Volume.ID ` set (volumes (DB w)) \<Longrightarrow>
   fst (prune_loop item be vols items w) = items @ map item vols"
proof (induction vols arbitrary: items w)
  case Nil
  then show ?case by simp
next
  case (Cons vol vols)
  let ?w2 = "after_backend_delete be vol w"
  let ?w3 = "after_store_delete vol ?w2"
  have "Volume.ID vol \<in> Volume.ID ` set (volumes (DB w))"
    using Cons.prems(2) by simp
  then obtain db' where del: "DB_DeleteVolume (DB w) vol = Inr db'"
    using DB_DeleteVolume_present_iff [of "DB w" vol] by blast
  have sub: "Volume.ID ` set vols \<subseteq> Volume.ID ` set (volumes (DB ?w3))"
    using keys_subset_filter [OF Cons.prems(1), of "volumes (DB w)"] Cons.prems(2)
    by (simp add: after_store_delete_volumes)
  have "distinct (map Volume.ID vols)"
    using Cons.prems(1) by simp
  from Cons.IH [OF this sub, of "items @ [item vol]"] show ?case
    using del by (simp add: Let_def)
qed

lemma prune_loop_warns:
  assumes "vols = pre @ v # post"
    and "cli be (Calls w @ map (delete_call be) pre) (delete_call be v) = Some e"
    and "\<not> IsNotFound e"
  shows "KWarning (''error deleting k8s PVC for volume '' @ Volume.Name v @ '': ''
             @ ''failed to delete PVC for volume '' @ Volume.Name v @ '': '' @ ErrorString e)
           \<in> set (Klog (snd (prune_loop item be vols items w)))"
  using assms
proof (induction pre arbitrary: vols items w)
  case Nil
  let ?w2 = "after_backend_delete be v w"
  let ?w3 = "after_store_delete v ?w2"
  have "KWarning (''error deleting k8s PVC for volume '' @ Volume.Name v @ '': ''
             @ ''failed to delete PVC for volume '' @ Volume.Name v @ '': '' @ ErrorString e)
           \<in> set (Klog ?w2)"
    using Nil.prems by (intro after_backend_delete_warns) simp_all
  moreover obtain ls where "Klog ?w3 = Klog ?w2 @ ls"
    using after_store_delete_Klog by blast
  moreover obtain ls' where
    "Klog (snd (prune_loop item be post
        (case DB_DeleteVolume (DB ?w2) v of Inl err \<Rightarrow> items | Inr db' \<Rightarrow> items @ [item v]) ?w3)) =
       Klog ?w3 @ ls'"
    using prune_loop_state by blast
  ultimately show ?case
    using Nil.prems(1) by (simp add: Let_def)
next
  case (Cons x pre)
  let ?w3 = "after_store_delete x (after_backend_delete be x w)"
  have "cli be (Calls ?w3 @ map (delete_call be) pre) (delete_call be v) = Some e"
    using Cons.prems(2) by simp
  from Cons.IH [OF refl this Cons.prems(3)] show ?case
    using Cons.prems(1) by (simp add: Let_def)
qed

lemma filter_keys_all: "filter (\<lambda>u. f u \<notin> f ` set vs) vs = []"
  by (simp add: filter_empty_conv)

text \<open>
  Claim C10. Volume prune, in either package, deletes every volume of the store whatever
  the containers are: it always answers 200, the store holds no volume afterwards, one
  claim deletion per listed volume is sent to the platform, and containers and networks
  are untouched. In a store whose volume IDs are distinct every store deletion succeeds,
  and the response lists all the volumes, in order, whether or not the backend deletion
  failed; a backend failure is logged as a warning. The docker response reports zero
  space reclaimed, the libpod response a zero size for each volume.
\<close>

theorem VolumesPrune_all:
  "\<exists>names pruned w'.
     docker_VolumesPrune be w =
       (RespJSON StatusOK
          (JObject [(''VolumesDeleted'', JArray (map JString names)),
                    (''SpaceReclaimed'', JNumber 0)]), w') \<and>
     libpod_VolumePrune be w = (RespJSON StatusOK (JArray pruned), w') \<and>
     volumes (DB w') = [] \<and>
     containers (DB w') = containers (DB w) \<and>
     networks (DB w') = networks (DB w) \<and>
     Calls w' = Calls w @ map (delete_call be) (volumes (DB w)) \<and>
     (distinct (map Volume.ID (volumes (DB w))) \<longrightarrow>
        names = map Volume.Name (volumes (DB w)) \<and>
        pruned = map (\<lambda>vol. JObject [(''Id'', JString (Volume.ID vol)), (''Size'', JNumber 0)])
                   (volumes (DB w))) \<and>
     (\<forall>pre v post e.
        volumes (DB w) = pre @ v # post \<and>
        cli be (Calls w @ map (delete_call be) pre) (delete_call be v) = Some e \<and>
        \<not> IsNotFound e \<longrightarrow>
        KWarning (''error deleting k8s PVC for volume '' @ Volume.Name v @ '': ''
            @ ''failed to delete PVC for volume '' @ Volume.Name v @ '': '' @ ErrorString e)
          \<in> set (Klog w'))"
proof -
  let ?vols = "volumes (DB w)"
  let ?item = "\<lambda>vol. JObject [(''Id'', JString (Volume.ID vol)), (''Size'', JNumber 0)]"
  let ?d = "prune_loop Volume.Name be ?vols [] w"
  let ?l = "prune_loop ?item be ?vols [] w"
  note st = prune_loop_state [of Volume.Name be ?vols "[]" w ?item "[]"]
  note same = st [THEN conjunct1, symmetric]
  note vol = st [THEN conjunct2, THEN conjunct1]
  note rest = st [THEN conjunct2, THEN conjunct2]
  have d: "docker_VolumesPrune be w =
       (RespJSON StatusOK
          (JObject [(''VolumesDeleted'', JArray (map JString (fst ?d))),
                    (''SpaceReclaimed'', JNumber 0)]), snd ?d)"
    by (simp add: docker_VolumesPrune_def DB_GetVolumes_def docker_loop_prune_loop
        case_prod_beta)
  have l: "libpod_VolumePrune be w = (RespJSON StatusOK (JArray (fst ?l)), snd ?d)"
    using same
    by (simp add: libpod_VolumePrune_def DB_GetVolumes_def libpod_loop_prune_loop
        case_prod_beta)
  have v: "volumes (DB (snd ?d)) = []"
    using vol filter_keys_all [of Volume.ID ?vols] by simp
  have items: "distinct (map Volume.ID ?vols) \<Longrightarrow>
      fst ?d = map Volume.Name ?vols \<and> fst ?l = map ?item ?vols"
    using prune_loop_items [of ?vols w Volume.Name be "[]"]
      prune_loop_items [of ?vols w ?item be "[]"] by simp
  have warns: "\<forall>pre v post e.
        ?vols = pre @ v # post \<and>
        cli be (Calls w @ map (delete_call be) pre) (delete_call be v) = Some e \<and>
        \<not> IsNotFound e \<longrightarrow>
        KWarning (''error deleting k8s PVC for volume '' @ Volume.Name v @ '': ''
            @ ''failed to delete PVC for volume '' @ Volume.Name v @ '': '' @ ErrorString e)
          \<in> set (Klog (snd ?d))"
    using prune_loop_warns [of ?vols _ _ _ be w _ Volume.Name "[]"] by blast
  show ?thesis
    apply (rule exI [of _ "fst ?d"])
    apply (rule exI [of _ "fst ?l"])
    apply (rule exI [of _ "snd ?d"])
    using d l v rest items warns by simp
qed


theorem VolumesPrune_all_witness:
  "distinct (map Volume.ID (volumes (DB sample_world))) \<and>
   fst (docker_VolumesPrune (sample_backend failing_cli) sample_world) =
     RespJSON StatusOK
       (JObject [(''VolumesDeleted'', JArray [JString ''myvolume'', JString ''cache'']),
                 (''SpaceReclaimed'', JNumber 0)]) \<and>
   fst (libpod_VolumePrune (sample_backend failing_cli) sample_world) =
     RespJSON StatusOK
       (JArray [JObject [(''Id'', JString ''4f1c2a9d77e0b6a1''), (''Size'', JNumber 0)],
                JObject [(''Id'', JString ''9b3e5d20c4a8f713''), (''Size'', JNumber 0)]]) \<and>
   volumes (DB (snd (docker_VolumesPrune (sample_backend failing_cli) sample_world))) = [] \<and>
   KWarning ''error deleting k8s PVC for volume cache: failed to delete PVC for volume cache: connection refused''
     \<in> set (Klog (snd (docker_VolumesPrune (sample_backend failing_cli) sample_world)))"
proof -
  let ?be = "sample_backend failing_cli"
  let ?e = "StatusError StatusReasonOther ''connection refused''"
  have vs: "volumes (DB sample_world) = [sample_volume, other_volume]"
    by (simp add: sample_world_def)
  have fields: "Volume.ID sample_volume = ''4f1c2a9d77e0b6a1''"
    "Volume.ID other_volume = ''9b3e5d20c4a8f713''"
    "Volume.Name sample_volume = ''myvolume''" "Volume.Name other_volume = ''cache''"
    by (simp_all add: sample_volume_def other_volume_def)
  have c: "cli ?be cs c = Some ?e" for cs c
    by (simp add: sample_backend_def failing_cli_def)
  have nf: "\<not> IsNotFound ?e"
    by (simp add: IsNotFound_def)
  from VolumesPrune_all [of ?be sample_world] obtain names pruned w' where
    r: "docker_VolumesPrune ?be sample_world =
         (RespJSON StatusOK
            (JObject [(''VolumesDeleted'', JArray (map JString names)),
                      (''SpaceReclaimed'', JNumber 0)]), w')"
      "libpod_VolumePrune ?be sample_world = (RespJSON StatusOK (JArray pruned), w')"
      "volumes (DB w') = []"
    and n: "distinct (map Volume.ID (volumes (DB sample_world))) \<longrightarrow>
        names = map Volume.Name (volumes (DB sample_world)) \<and>
        pruned = map (\<lambda>vol. JObject [(''Id'', JString (Volume.ID vol)), (''Size'', JNumber 0)])
                   (volumes (DB sample_world))"
    and k: "\<forall>pre v post e.
        volumes (DB sample_world) = pre @ v # post \<and>
        cli ?be (Calls sample_world @ map (delete_call ?be) pre) (delete_call ?be v) = Some e \<and>
        \<not> IsNotFound e \<longrightarrow>
        KWarning (''error deleting k8s PVC for volume '' @ Volume.Name v @ '': ''
            @ ''failed to delete PVC for volume '' @ Volume.Name v @ '': '' @ ErrorString e)
          \<in> set (Klog w')"
    by blast
  have "KWarning (''error deleting k8s PVC for volume '' @ Volume.Name other_volume @ '': ''
            @ ''failed to delete PVC for volume '' @ Volume.Name other_volume @ '': ''
            @ ErrorString ?e) \<in> set (Klog w')"
    using k [rule_format, of "[sample_volume]" other_volume "[]" ?e] c nf by (simp add: vs)
  then show ?thesis
    using r n by (simp add: vs fields)
qed

subsection \<open>Create by name\<close>

lemma find_distinct_key:
  "distinct (map f vs) \<Longrightarrow> v \<in> set vs \<Longrightarrow> List.find (\<lambda>u. f u = f v) vs = Some v"
proof (induction vs)
  case Nil
  then show ?case by simp
next
  case (Cons a vs)
  show ?case
  proof (cases "a = v")
    case True
    then show ?thesis by simp
  next
    case False
    then have "v \<in> set vs"
      using Cons.prems(2) by simp
    moreover from this have "f a \<noteq> f v"
      using Cons.prems(1) by (metis distinct.simps(2) imageI list.simps(9) set_map)
    ultimately show ?thesis
      using Cons by simp
  qed
qed

lemma find_append_new:
  "List.find P vs = None \<Longrightarrow> P v \<Longrightarrow> List.find P (vs @ [v]) = Some v"
  by (induction vs) (auto split: if_splits)

lemma find_map_replace:
  "List.find P vs = None \<Longrightarrow> P v \<Longrightarrow> \<exists>u \<in> set vs. Q u \<Longrightarrow>
     List.find P (map (\<lambda>u. if Q u then v else u) vs) = Some v"
  by (induction vs) (auto split: if_splits)

lemma DB_GetVolumeByName_distinct:
  "v \<in> set (volumes db) \<Longrightarrow> distinct (map Volume.Name (volumes db)) \<Longrightarrow>
     DB_GetVolumeByName db (Volume.Name v) = Inr v"
  using find_distinct_key [of Volume.Name "volumes db" v]
  by (simp add: DB_GetVolumeByName_def)

text \<open>
  Claim C2. Volume create is idempotent by name: in every store that holds a volume of
  the requested name (names being unique), a create request of either package answers
  201 with that volume as it is stored, and leaves the store, the calls made on the
  platform and the log as they were: the backend is not called.
\<close>

theorem VolumeCreate_existing:
  assumes "v \<in> set (volumes (DB w))"
    and "distinct (map Volume.Name (volumes (DB w)))"
    and "VolumeCreateRequest.Name req = Volume.Name v"
  shows "docker_VolumeCreate pk be st (Inr (Some req)) w = (RespJSON StatusCreated (volumeToJSON v), w) \<and>
         libpod_VolumeCreate pk be st (Inr (Some req)) w =
           (RespJSON StatusCreated (volumeToLibpodJSON v), w)"
  using DB_GetVolumeByName_distinct [OF assms(1,2)] assms(3)
  by (simp add: docker_VolumeCreate_def libpod_VolumeCreate_def)

theorem VolumeCreate_existing_witness:
  "sample_volume \<in> set (volumes (DB sample_world)) \<and>
   distinct (map Volume.Name (volumes (DB sample_world))) \<and>
   docker_VolumeCreate sample_pkgs (sample_backend failing_cli) sample_stamp
     (Inr (Some \<lparr>VolumeCreateRequest.Name = ''myvolume'', VolumeCreateRequest.Driver = [],
           VolumeCreateRequest.Labels = None\<rparr>)) sample_world =
     (RespJSON StatusCreated (volumeToJSON sample_volume), sample_world) \<and>
   libpod_VolumeCreate sample_pkgs (sample_backend failing_cli) sample_stamp
     (Inr (Some \<lparr>VolumeCreateRequest.Name = ''myvolume'', VolumeCreateRequest.Driver = [],
           VolumeCreateRequest.Labels = None\<rparr>)) sample_world =
     (RespJSON StatusCreated (volumeToLibpodJSON sample_volume), sample_world)"
proof -
  have a: "sample_volume \<in> set (volumes (DB sample_world))"
    by (simp add: sample_world_def)
  have b: "distinct (map Volume.Name (volumes (DB sample_world)))"
    by (simp add: sample_world_def sample_volume_def other_volume_def)
  have c: "VolumeCreateRequest.Name
             \<lparr>VolumeCreateRequest.Name = ''myvolume'', VolumeCreateRequest.Driver = [],
              VolumeCreateRequest.Labels = None\<rparr> = Volume.Name sample_volume"
    by (simp add: sample_volume_def)
  show ?thesis
    using VolumeCreate_existing [OF a b c] a b by simp
qed

lemma DB_SaveVolume_found:
  assumes "DB_GetVolumeByName db (Volume.Name vol) = Inl err"
    and "DB_SaveVolume db st vol = Inr (vol2, db2)"
  shows "DB_GetVolumeByName db2 (Volume.Name vol) = Inr vol2"
proof -
  let ?P = "\<lambda>u. Volume.Name u = Volume.Name vol"
  have none: "List.find ?P (volumes db) = None"
    using assms(1) by (simp add: DB_GetVolumeByName_def split: option.splits)
  have name: "?P vol2"
    using assms(2) by (auto simp: DB_SaveVolume_def Let_def split: if_splits)
  have "List.find ?P (volumes db2) = Some vol2"
  proof (cases "\<exists>u \<in> set (volumes db). Volume.ID u = Volume.ID vol2")
    case True
    then have "volumes db2 = map (\<lambda>u. if Volume.ID u = Volume.ID vol2 then vol2 else u) (volumes db)"
      using assms(2) by (auto simp: DB_SaveVolume_def Let_def split: if_splits)
    then show ?thesis
      using find_map_replace [OF none name True] by simp
  next
    case False
    then have "volumes db2 = volumes db @ [vol2]"
      using assms(2) by (auto simp: DB_SaveVolume_def Let_def split: if_splits)
    then show ?thesis
      using find_append_new [OF none name] by simp
  qed
  then show ?thesis
    by (simp add: DB_GetVolumeByName_def)
qed

lemma CreateVolume_Name:
  "CreateVolume pk be vol w = Returns (r, vol1, w1) \<Longrightarrow> Volume.Name vol1 = Volume.Name vol"
  by (auto simp: CreateVolume_def Let_def split: option.splits if_splits)

text \<open>
  Creating a volume twice: when a create request was answered 201, the same request on
  the state it left is answered 201 with the same body, whatever the platform answers
  now, and leaves that state as it is.
\<close>

lemma docker_VolumeCreate_twice:
  assumes "docker_VolumeCreate pk be st (Inr (Some req)) w = (RespJSON StatusCreated j, w1)"
  shows "docker_VolumeCreate pk' be' st' (Inr (Some req)) w1 = (RespJSON StatusCreated j, w1)"
proof (cases "DB_GetVolumeByName (DB w) (VolumeCreateRequest.Name req)")
  case (Inr existing)
  then show ?thesis
    using assms by (simp add: docker_VolumeCreate_def)
next
  case (Inl err)
  let ?vol = "\<lparr>Volume.ID = [], ShortID = [], Volume.Name = VolumeCreateRequest.Name req,
     Volume.Driver = (if VolumeCreateRequest.Driver req = [] then ''local''
                      else VolumeCreateRequest.Driver req),
     Volume.Labels = VolumeCreateRequest.Labels req, Mountpoint = [], Volume.Created = 0\<rparr>"
  from assms Inl obtain vol1 w0 vol2 db2 where
    c: "CreateVolume pk be ?vol w = Returns (None, vol1, w0)"
    and s: "DB_SaveVolume (DB w0) st vol1 = Inr (vol2, db2)"
    and j: "j = volumeToJSON vol2" and w1: "w1 = w0\<lparr>DB := db2\<rparr>"
    by (auto simp: docker_VolumeCreate_def Let_def
        split: outcome.splits option.splits sum.splits prod.splits)
  have n: "Volume.Name vol1 = VolumeCreateRequest.Name req"
    using CreateVolume_Name [OF c] by simp
  have "DB w0 = DB w"
    using CreateVolume_Calls [OF c] by blast
  then have "DB_GetVolumeByName (DB w0) (Volume.Name vol1) = Inl err"
    using Inl n by simp
  from DB_SaveVolume_found [OF this s] show ?thesis
    using n j w1 by (simp add: docker_VolumeCreate_def)
qed


lemma libpod_VolumeCreate_twice:
  assumes "libpod_VolumeCreate pk be st (Inr (Some req)) w = (RespJSON StatusCreated j, w1)"
  shows "libpod_VolumeCreate pk' be' st' (Inr (Some req)) w1 = (RespJSON StatusCreated j, w1)"
proof (cases "DB_GetVolumeByName (DB w) (VolumeCreateRequest.Name req)")
  case (Inr existing)
  then show ?thesis
    using assms by (simp add: libpod_VolumeCreate_def)
next
  case (Inl err)
  let ?vol = "\<lparr>Volume.ID = [], ShortID = [], Volume.Name = VolumeCreateRequest.Name req,
     Volume.Driver = (if VolumeCreateRequest.Driver req = [] then ''local''
                      else VolumeCreateRequest.Driver req),
     Volume.Labels = VolumeCreateRequest.Labels req, Mountpoint = [], Volume.Created = 0\<rparr>"
  from assms Inl obtain vol1 w0 vol2 db2 where
    c: "CreateVolume pk be ?vol w = Returns (None, vol1, w0)"
    and s: "DB_SaveVolume (DB w0) st vol1 = Inr (vol2, db2)"
    and j: "j = volumeToLibpodJSON vol2" and w1: "w1 = w0\<lparr>DB := db2\<rparr>"
    by (auto simp: libpod_VolumeCreate_def Let_def
        split: outcome.splits option.splits sum.splits prod.splits)
  have n: "Volume.Name vol1 = VolumeCreateRequest.Name req"
    using CreateVolume_Name [OF c] by simp
  have "DB w0 = DB w"
    using CreateVolume_Calls [OF c] by blast
  then have "DB_GetVolumeByName (DB w0) (Volume.Name vol1) = Inl err"
    using Inl n by simp
  from DB_SaveVolume_found [OF this s] show ?thesis
    using n j w1 by (simp add: libpod_VolumeCreate_def)
qed

section \<open>The network endpoints\<close>

lemma fold_update_empty:
  "fold (\<lambda>t res. if P t then AList.update (k t) (v t) res else res) ts acc = [] \<longleftrightarrow>
     acc = [] \<and> \<not> (\<exists>t \<in> set ts. P t)"
  by (induction ts arbitrary: acc) auto

lemma getContainersInNetwork_len:
  "(length (fst (getContainersInNetwork w netw)) \<noteq> 0) =
     (\<exists>t \<in> set (containers (DB w)). Network.ID netw \<in> Networks t)"
  using fold_update_empty [of "\<lambda>t. Network.ID netw \<in> Networks t" Container.ID
      "\<lambda>t. JObject [(''Name'', JString (Container.Name t))]" "containers (DB w)" "[]"]
  by (simp add: getContainersInNetwork_def DB_GetContainers_def)

lemma getContainersInNetwork_world [simp]: "snd (getContainersInNetwork w netw) = w"
  by (simp add: getContainersInNetwork_def DB_GetContainers_def)

lemma find_Some_mem: "List.find P xs = Some x \<Longrightarrow> x \<in> set xs"
  by (induction xs) (auto split: if_splits)

lemma GetNetworkByNameOrID_mem:
  "DB_GetNetworkByNameOrID db i = Inr netw \<Longrightarrow> netw \<in> set (networks db)"
  by (auto simp: DB_GetNetworkByNameOrID_def split: option.splits dest: find_Some_mem)

lemma GetContainerByNameOrID_mem:
  "DB_GetContainerByNameOrID db i = Inr t \<Longrightarrow> t \<in> set (containers db)"
  by (auto simp: DB_GetContainerByNameOrID_def split: option.splits dest: find_Some_mem)

lemma DB_DeleteNetwork_present:
  "Network.ID netw \<in> Network.ID ` set (networks db) \<Longrightarrow>
     DB_DeleteNetwork db netw =
       Inr (db\<lparr>networks := filter (\<lambda>n. Network.ID n \<noteq> Network.ID netw) (networks db)\<rparr>)"
  by (force simp: DB_DeleteNetwork_def)

lemma NetworkDelete_cases:
  assumes "DB_GetNetworkByNameOrID (DB w) i = Inr netw"
  shows "NetworkDelete P i w =
     (if P netw
      then (RespError StatusForbidden
              (Errorf (Network.Name netw @ '' is a pre-defined network and cannot be removed'')), w)
      else if \<exists>t \<in> set (containers (DB w)). Network.ID netw \<in> Networks t
      then (RespError StatusConflict (Errorf ''cannot delete network, containers attached''), w)
      else (RespJSON StatusOK (JArray [networkToLibpodJSON netw]),
            w\<lparr>DB := (DB w)\<lparr>networks :=
                 filter (\<lambda>n. Network.ID n \<noteq> Network.ID netw) (networks (DB w))\<rparr>\<rparr>))"
proof -
  have "Network.ID netw \<in> Network.ID ` set (networks (DB w))"
    using GetNetworkByNameOrID_mem [OF assms] by (rule imageI)
  then show ?thesis
    using assms getContainersInNetwork_len [of w netw] DB_DeleteNetwork_present [of netw "DB w"]
    by (simp add: NetworkDelete_def case_prod_beta)
qed


lemma filter_keys_of_filter:
  assumes "distinct (map k xs)"
  shows "filter (\<lambda>x. k x \<notin> k ` set (filter f xs)) xs = filter (\<lambda>x. \<not> f x) xs"
proof (rule filter_cong [OF refl])
  fix x
  assume x: "x \<in> set xs"
  have inj: "inj_on k (set xs)"
    using assms by (simp add: distinct_map)
  have "k x \<in> k ` set (filter f xs) \<longleftrightarrow> f x"
  proof
    assume "k x \<in> k ` set (filter f xs)"
    then obtain y where "y \<in> set (filter f xs)" "k y = k x"
      by (metis imageE)
    then have "y \<in> set xs" "f y"
      by simp_all
    with \<open>k y = k x\<close> have "y \<in> set xs" "f y" "k y = k x"
      by simp_all
    then show "f x"
      using inj x by (metis inj_onD)
  next
    assume "f x"
    then show "k x \<in> k ` set (filter f xs)"
      using x by simp
  qed
  then show "(k x \<notin> k ` set (filter f xs)) = (\<not> f x)"
    by simp
qed

lemma NetworkPrune_loop_distinct:
  assumes "distinct (map Network.ID netws)"
    and "Network.ID ` set netws \<subseteq> Network.ID ` set (networks (DB w))"
  shows "NetworkPrune_loop P netws pruned w =
     (Inr (pruned @ map networkToLibpodJSON
                      (filter (\<lambda>n. \<not> P n \<and> \<not> attached (DB w) n) netws)),
      w\<lparr>DB := (DB w)\<lparr>networks :=
           filter (\<lambda>n. Network.ID n \<notin>
                        Network.ID ` set (filter (\<lambda>n. \<not> P n \<and> \<not> attached (DB w) n) netws))
             (networks (DB w))\<rparr>\<rparr>)"
  using assms
proof (induction netws arbitrary: pruned w)
  case Nil
  then show ?case by simp
next
  case (Cons netw netws)
  have d: "distinct (map Network.ID netws)"
    and sub: "Network.ID ` set netws \<subseteq> Network.ID ` set (networks (DB w))"
    and here: "Network.ID netw \<in> Network.ID ` set (networks (DB w))"
    using Cons.prems by simp_all
  have len: "(length (fst (getContainersInNetwork w netw)) \<noteq> 0) = attached (DB w) netw"
    using getContainersInNetwork_len [of w netw] by (simp only: attached_def)
  show ?case
  proof (cases "P netw \<or> attached (DB w) netw")
    case True
    then show ?thesis
      using Cons.IH [OF d sub, of pruned] len by (auto simp: case_prod_beta)
  next
    case False
    let ?db = "(DB w)\<lparr>networks :=
                 filter (\<lambda>n. Network.ID n \<noteq> Network.ID netw) (networks (DB w))\<rparr>"
    let ?w = "w\<lparr>DB := ?db\<rparr>"
    have del: "DB_DeleteNetwork (DB w) netw = Inr ?db"
      using here by (rule DB_DeleteNetwork_present)
    have sub': "Network.ID ` set netws \<subseteq> Network.ID ` set (networks (DB ?w))"
      using keys_subset_filter [OF Cons.prems(1), of "networks (DB w)"] Cons.prems(2) by simp
    have att: "attached (DB ?w) = attached (DB w)"
      by (simp add: attached_def fun_eq_iff)
    show ?thesis
      using Cons.IH [OF d sub', of "pruned @ [networkToLibpodJSON netw]"] False len del att
        filter_keys_filter [of Network.ID
          "filter (\<lambda>n. \<not> P n \<and> \<not> attached (DB w) n) netws" netw "networks (DB w)"]
      by (simp add: case_prod_beta)
  qed
qed

lemma NetworkPrune_distinct:
  assumes "distinct (map Network.ID (networks (DB w)))"
  shows "NetworkPrune P w =
     (RespJSON StatusOK
        (JArray (map networkToLibpodJSON
                   (filter (\<lambda>n. \<not> P n \<and> \<not> attached (DB w) n) (networks (DB w))))),
      w\<lparr>DB := (DB w)\<lparr>networks :=
           filter (\<lambda>n. P n \<or> attached (DB w) n) (networks (DB w))\<rparr>\<rparr>)"
  using NetworkPrune_loop_distinct [OF assms subset_refl, of P "[]"]
    filter_keys_of_filter [OF assms, of "\<lambda>n. \<not> P n \<and> \<not> attached (DB w) n"]
  by (simp add: NetworkPrune_def DB_GetNetworks_def)

subsection \<open>Predefined and attached networks\<close>

lemma sample_networks:
  "DB_GetNetworkByNameOrID (DB sample_world) ''bridge'' = Inr bridge_network"
  "DB_GetNetworkByNameOrID (DB sample_world) ''backend'' = Inr backend_network"
  "DB_GetNetworkByNameOrID (DB sample_world) ''idle'' = Inr idle_network"
  by (simp_all add: DB_GetNetworkByNameOrID_def sample_world_def bridge_network_def
      backend_network_def idle_network_def)

lemma sample_containers:
  "DB_GetContainerByNameOrID (DB sample_world) ''web'' = Inr web_container"
  "DB_GetContainerByNameOrID (DB sample_world) ''job'' = Inr job_container"
  by (simp_all add: DB_GetContainerByNameOrID_def sample_world_def web_container_def
      job_container_def)

lemma sample_attached:
  "attached (DB sample_world) bridge_network"
  "attached (DB sample_world) backend_network"
  "\<not> attached (DB sample_world) idle_network"
  by (simp_all add: attached_def sample_world_def bridge_network_def backend_network_def
      idle_network_def web_container_def job_container_def)

lemma sample_predefined:
  "sample_IsPredefined bridge_network"
  "\<not> sample_IsPredefined backend_network"
  "\<not> sample_IsPredefined idle_network"
  by (simp_all add: sample_IsPredefined_def bridge_network_def backend_network_def
      idle_network_def)

text \<open>
  Claim C1, as stated, fails: deleting the predefined network \<open>bridge\<close> is answered
  403 (Forbidden), and disconnecting a container from it is answered 500; neither is
  409 (Conflict).
\<close>

theorem predefined_not_conflict:
  "sample_IsPredefined bridge_network \<and>
   StatusCode (fst (NetworkDelete sample_IsPredefined ''bridge''
                      (sample_world\<lparr>DB := (DB sample_world)\<lparr>containers := []\<rparr>\<rparr>))) =
     Some StatusForbidden \<and>
   StatusCode (fst (NetworkDisconnect sample_IsPredefined ''bridge''
                      (Inr (Some \<lparr>NetworkDisconnectRequest.Container = ''web''\<rparr>)) sample_world)) =
     Some StatusInternalServerError \<and>
   StatusForbidden \<noteq> StatusConflict \<and> StatusInternalServerError \<noteq> StatusConflict"
proof -
  have "DB_GetNetworkByNameOrID (DB (sample_world\<lparr>DB := (DB sample_world)\<lparr>containers := []\<rparr>\<rparr>))
          ''bridge'' = Inr bridge_network"
    by (simp add: DB_GetNetworkByNameOrID_def sample_world_def bridge_network_def
        backend_network_def idle_network_def)
  then show ?thesis
    using sample_predefined(1) sample_networks(1) sample_containers(1)
    by (simp add: NetworkDelete_def NetworkDisconnect_def)
qed

text \<open>
  Claim C1, amended. For every network that resolves and is predefined, in every state
  of the store: network delete fails with 403 (Forbidden), and network disconnect fails
  with 500, or with 404 when the request's container does not resolve, or with 500
  with the decoding error when the request body does not decode (on the body \<open>null\<close>
  the handler panics and writes nothing); neither succeeds, and both leave the state, so the network and
  every container's memberships, unchanged.
\<close>

theorem predefined_network_refused:
  assumes "P netw" and "DB_GetNetworkByNameOrID (DB w) i = Inr netw"
  shows "NetworkDelete P i w =
           (RespError StatusForbidden
              (Errorf (Network.Name netw @ '' is a pre-defined network and cannot be removed'')),
            w) \<and>
         (body \<noteq> Inr None \<longrightarrow>
            (\<exists>s e. NetworkDisconnect P i body w = (RespError s e, w) \<and>
                   (s = StatusInternalServerError \<or> s = StatusNotFound))) \<and>
         NetworkDisconnect P i (Inr None) w = (RespPanic, w) \<and>
         (DB_GetContainerByNameOrID (DB w) (NetworkDisconnectRequest.Container req) = Inr t \<longrightarrow>
            NetworkDisconnect P i (Inr (Some req)) w =
              (RespError StatusInternalServerError
                 (Errorf ''cannot disconnect from predefined network''), w)) \<and>
         NetworkDisconnect P i (Inl err) w = (RespError StatusInternalServerError err, w) \<and>
         (DB_GetContainerByNameOrID (DB w) (NetworkDisconnectRequest.Container req) = Inl err' \<longrightarrow>
            NetworkDisconnect P i (Inr (Some req)) w = (RespError StatusNotFound err', w))"
  using assms
  by (cases body)
    (auto simp: NetworkDelete_def NetworkDisconnect_def split: sum.splits option.splits)

theorem predefined_network_refused_witness:
  "sample_IsPredefined bridge_network \<and>
   DB_GetNetworkByNameOrID (DB sample_world) ''bridge'' = Inr bridge_network \<and>
   NetworkDelete sample_IsPredefined ''bridge'' sample_world =
     (RespError StatusForbidden (Errorf ''bridge is a pre-defined network and cannot be removed''),
      sample_world) \<and>
   NetworkDisconnect sample_IsPredefined ''bridge''
     (Inr (Some \<lparr>NetworkDisconnectRequest.Container = ''web''\<rparr>)) sample_world =
     (RespError StatusInternalServerError (Errorf ''cannot disconnect from predefined network''),
      sample_world)"
  using predefined_network_refused [where P = sample_IsPredefined and netw = bridge_network
      and w = sample_world and i = "''bridge''"
      and body = "Inr (Some \<lparr>NetworkDisconnectRequest.Container = ''web''\<rparr>)"
      and req = "\<lparr>NetworkDisconnectRequest.Container = ''web''\<rparr>" and t = web_container]
    sample_predefined(1) sample_networks(1) sample_containers(1)
  by (simp add: bridge_network_def)

text \<open>
  Claim C4, as stated, fails: the predefined network \<open>bridge\<close> has a container attached,
  and deleting it is answered 403 (Forbidden), not 409 (Conflict).
\<close>

theorem attached_predefined_not_conflict:
  "web_container \<in> set (containers (DB sample_world)) \<and>
   Network.ID bridge_network \<in> Networks web_container \<and>
   DB_GetNetworkByNameOrID (DB sample_world) ''bridge'' = Inr bridge_network \<and>
   NetworkDelete sample_IsPredefined ''bridge'' sample_world =
     (RespError StatusForbidden (Errorf ''bridge is a pre-defined network and cannot be removed''),
      sample_world) \<and>
   StatusForbidden \<noteq> StatusConflict"
  using sample_predefined(1) sample_networks(1)
  by (simp add: NetworkDelete_def)
    (simp add: sample_world_def bridge_network_def web_container_def)

text \<open>
  Claim C4, amended. Network delete succeeds if and only if the network resolves, is not
  predefined and no container's membership set holds its ID; for a network that is
  not predefined and has a member, delete fails with 409 (Conflict) and the state is
  unchanged; for one that is not predefined and has no member, the network is removed
  from the store. Prune, on a store whose network IDs are distinct, answers 200, removes
  exactly the networks that are neither predefined nor attached, lists them, and keeps
  the others.
\<close>

theorem NetworkDelete_iff:
  "(StatusCode (fst (NetworkDelete P i w)) = Some StatusOK \<longleftrightarrow>
      (\<exists>netw. DB_GetNetworkByNameOrID (DB w) i = Inr netw \<and> \<not> P netw \<and>
              \<not> attached (DB w) netw)) \<and>
   (DB_GetNetworkByNameOrID (DB w) i = Inr netw \<and> \<not> P netw \<and> attached (DB w) netw \<longrightarrow>
      NetworkDelete P i w =
        (RespError StatusConflict (Errorf ''cannot delete network, containers attached''), w)) \<and>
   (DB_GetNetworkByNameOrID (DB w) i = Inr netw \<and> \<not> P netw \<and> \<not> attached (DB w) netw \<longrightarrow>
      NetworkDelete P i w =
        (RespJSON StatusOK (JArray [networkToLibpodJSON netw]),
         w\<lparr>DB := (DB w)\<lparr>networks :=
              filter (\<lambda>n. Network.ID n \<noteq> Network.ID netw) (networks (DB w))\<rparr>\<rparr>)) \<and>
   (distinct (map Network.ID (networks (DB w))) \<longrightarrow>
      NetworkPrune P w =
        (RespJSON StatusOK
           (JArray (map networkToLibpodJSON
                      (filter (\<lambda>n. \<not> P n \<and> \<not> attached (DB w) n) (networks (DB w))))),
         w\<lparr>DB := (DB w)\<lparr>networks :=
              filter (\<lambda>n. P n \<or> attached (DB w) n) (networks (DB w))\<rparr>\<rparr>))"
proof -
  have iff: "StatusCode (fst (NetworkDelete P i w)) = Some StatusOK \<longleftrightarrow>
      (\<exists>netw. DB_GetNetworkByNameOrID (DB w) i = Inr netw \<and> \<not> P netw \<and>
              \<not> attached (DB w) netw)"
  proof (cases "DB_GetNetworkByNameOrID (DB w) i")
    case (Inl err)
    then show ?thesis
      by (simp add: NetworkDelete_def)
  next
    case (Inr n)
    then show ?thesis
      using NetworkDelete_cases [OF Inr, of P] by (simp add: attached_def)
  qed
  show ?thesis
    using iff NetworkDelete_cases [of w i netw P] NetworkPrune_distinct [of w P]
    by (simp add: attached_def)
qed

theorem NetworkDelete_iff_witness:
  "NetworkDelete sample_IsPredefined ''backend'' sample_world =
     (RespError StatusConflict (Errorf ''cannot delete network, containers attached''),
      sample_world) \<and>
   NetworkDelete sample_IsPredefined ''idle'' sample_world =
     (RespJSON StatusOK (JArray [networkToLibpodJSON idle_network]),
      sample_world\<lparr>DB := (DB sample_world)\<lparr>networks := [bridge_network, backend_network]\<rparr>\<rparr>) \<and>
   distinct (map Network.ID (networks (DB sample_world))) \<and>
   NetworkPrune sample_IsPredefined sample_world =
     (RespJSON StatusOK (JArray [networkToLibpodJSON idle_network]),
      sample_world\<lparr>DB := (DB sample_world)\<lparr>networks := [bridge_network, backend_network]\<rparr>\<rparr>)"
proof -
  have nets: "networks (DB sample_world) = [bridge_network, backend_network, idle_network]"
    by (simp add: sample_world_def)
  have ids: "Network.ID bridge_network = ''n0''" "Network.ID backend_network = ''n1''"
    "Network.ID idle_network = ''n2''"
    by (simp_all add: bridge_network_def backend_network_def idle_network_def)
  show ?thesis
    using NetworkDelete_iff [of sample_IsPredefined "''backend''" sample_world backend_network]
      NetworkDelete_iff [of sample_IsPredefined "''idle''" sample_world idle_network]
      sample_networks sample_attached sample_predefined
    by (simp add: nets ids)
qed

subsection \<open>Aliases on connect\<close>

lemma fresh_aliases_set: "set (fresh_aliases seen xs) = set xs - set seen"
  by (induction xs arbitrary: seen) auto

lemma fresh_aliases_distinct: "distinct (fresh_aliases seen xs)"
  by (induction xs arbitrary: seen) (auto simp: fresh_aliases_set)

lemma done_fold: "dom (fold (\<lambda>a d. d(a \<mapsto> a)) xs d0) = set xs \<union> dom d0"
  by (induction xs arbitrary: d0) auto

lemma NetworkConnect_aliases_fresh:
  assumes "dom d = set seen"
  shows "fst (NetworkConnect_aliases L aliases tainr d) =
           tainr\<lparr>NetworkAliases := NetworkAliases tainr @ fresh_aliases seen (map L aliases)\<rparr>"
  using assms
proof (induction aliases arbitrary: tainr d seen)
  case Nil
  then show ?case by simp
next
  case (Cons a aliases)
  show ?case
  proof (cases "L a \<in> set seen")
    case True
    then obtain y where "d (L a) = Some y"
      using Cons.prems by (metis domD)
    then show ?thesis
      using Cons.IH [OF Cons.prems, of tainr] True by (simp add: Let_def)
  next
    case False
    then have none: "d (L a) = None"
      using Cons.prems by (metis domIff)
    have "dom (d(L a \<mapsto> L a)) = set (L a # seen)"
      using Cons.prems by simp
    from Cons.IH [OF this, of "tainr\<lparr>NetworkAliases := NetworkAliases tainr @ [L a]\<rparr>"]
    have rest: "fst (NetworkConnect_aliases L aliases
                  (tainr\<lparr>NetworkAliases := NetworkAliases tainr @ [L a]\<rparr>) (d(L a \<mapsto> L a))) =
        tainr\<lparr>NetworkAliases :=
          NetworkAliases tainr @ L a # fresh_aliases (L a # seen) (map L aliases)\<rparr>"
      by (simp add: fun_upd_def)
    have "NetworkConnect_aliases L (a # aliases) tainr d =
        NetworkConnect_aliases L aliases
          (tainr\<lparr>NetworkAliases := NetworkAliases tainr @ [L a]\<rparr>) (d(L a \<mapsto> L a))"
      using none by (simp add: Let_def)
    then show ?thesis
      using rest False by simp
  qed
qed

lemma DB_SaveContainer_present:
  "t \<in> set (containers db) \<Longrightarrow> Container.ID t' = Container.ID t \<Longrightarrow>
     DB_SaveContainer db t' =
       Inr (db\<lparr>containers :=
              map (\<lambda>c. if Container.ID c = Container.ID t then t' else c) (containers db)\<rparr>)"
  by (auto simp: DB_SaveContainer_def)

lemma count_list_distinct: "distinct xs \<Longrightarrow> x \<in> set xs \<Longrightarrow> count_list xs x = 1"
  by (induction xs) auto

lemma asciiToLower_char:
  fixes n :: nat
  assumes "65 \<le> n" and "n \<le> 90"
  shows "\<not> (65 \<le> (of_char (char_of (n + 32) :: char) :: nat) \<and>
             (of_char (char_of (n + 32) :: char) :: nat) \<le> 90)"
proof -
  have "(n + 32) mod 256 = n + 32"
    using assms by simp
  then show ?thesis
    using assms by simp
qed

lemma asciiToLower_idem: "asciiToLower (asciiToLower s) = asciiToLower s"
  by (induction s) (auto simp: asciiToLower_def Let_def dest: asciiToLower_char)

lemma NetworkConnect_stores:
  assumes "DB_GetNetworkByNameOrID (DB w) i = Inr netw"
    and "DB_GetContainerByNameOrID (DB w) (NetworkConnectRequest.Container req) = Inr t"
  shows "NetworkConnect L i (Inr (Some req)) w =
           (RespJSON StatusOK (JObject []),
            w\<lparr>DB := (DB w)\<lparr>containers :=
                 map (\<lambda>c. if Container.ID c = Container.ID t
                           then t\<lparr>Networks := insert (Network.ID netw) (Networks t),
                                  NetworkAliases :=
                                    NetworkAliases t @
                                    fresh_aliases (NetworkAliases t) (map L (Aliases req))\<rparr>
                           else c)
                   (containers (DB w))\<rparr>\<rparr>)"
proof -
  let ?t1 = "ConnectNetwork t (Network.ID netw)"
  let ?d = "fold (\<lambda>a d. d(a \<mapsto> a)) (NetworkAliases ?t1) Map.empty"
  let ?new = "fresh_aliases (NetworkAliases t) (map L (Aliases req))"
  have "dom ?d = set (NetworkAliases t)"
    by (simp add: done_fold ConnectNetwork_def)
  from NetworkConnect_aliases_fresh [OF this, of L "Aliases req" ?t1]
  have loop: "fst (NetworkConnect_aliases L (Aliases req) ?t1 ?d) =
      t\<lparr>Networks := insert (Network.ID netw) (Networks t),
        NetworkAliases := NetworkAliases t @ ?new\<rparr>"
    by (simp add: ConnectNetwork_def)
  have mem: "t \<in> set (containers (DB w))"
    using assms(2) by (rule GetContainerByNameOrID_mem)
  show ?thesis
    using assms loop
      DB_SaveContainer_present [OF mem, of
        "t\<lparr>Networks := insert (Network.ID netw) (Networks t),
          NetworkAliases := NetworkAliases t @ ?new\<rparr>"]
    by (simp add: NetworkConnect_def case_prod_beta)
qed

text \<open>
  Claim C5. For every container whose stored aliases are lower-cased and distinct, as
  the alias list of the entity is, and every connect request whose network and container
  resolve: the connect succeeds, and the container is stored with the network added to
  its memberships and with an alias list that holds the lower-cased form of each alias
  of the request exactly once. The list is the stored one followed, in order, by the
  lower-cased aliases of the request that are neither stored already nor an earlier
  entry of the request up to case; with a lower-casing that is idempotent, as
  \<open>strings.ToLower\<close> is, every alias of the new list is lower-cased and no two of
  them are equal up to case.
\<close>

theorem NetworkConnect_aliases_deduplicated:
  assumes "DB_GetNetworkByNameOrID (DB w) i = Inr netw"
    and "DB_GetContainerByNameOrID (DB w) (NetworkConnectRequest.Container req) = Inr t"
    and "\<forall>s \<in> set (NetworkAliases t). L s = s"
    and "distinct (NetworkAliases t)"
  shows "\<exists>aliases.
           aliases = NetworkAliases t @ fresh_aliases (NetworkAliases t) (map L (Aliases req)) \<and>
           NetworkConnect L i (Inr (Some req)) w =
             (RespJSON StatusOK (JObject []),
              w\<lparr>DB := (DB w)\<lparr>containers :=
                   map (\<lambda>c. if Container.ID c = Container.ID t
                             then t\<lparr>Networks := insert (Network.ID netw) (Networks t),
                                    NetworkAliases := aliases\<rparr>
                             else c)
                     (containers (DB w))\<rparr>\<rparr>) \<and>
           set aliases = set (NetworkAliases t) \<union> L ` set (Aliases req) \<and>
           distinct aliases \<and>
           (\<forall>a \<in> set (Aliases req). count_list aliases (L a) = 1) \<and>
           ((\<forall>s. L (L s) = L s) \<longrightarrow>
              (\<forall>s \<in> set aliases. L s = s) \<and> distinct (map L aliases))"
proof -
  let ?new = "fresh_aliases (NetworkAliases t) (map L (Aliases req))"
  let ?aliases = "NetworkAliases t @ ?new"
  have s: "set ?aliases = set (NetworkAliases t) \<union> L ` set (Aliases req)"
    by (auto simp: fresh_aliases_set)
  have d: "distinct ?aliases"
    using assms(4) by (auto simp: fresh_aliases_distinct fresh_aliases_set)
  have c: "\<forall>a \<in> set (Aliases req). count_list ?aliases (L a) = 1"
  proof
    fix a
    assume "a \<in> set (Aliases req)"
    then have "L a \<in> set ?aliases"
      unfolding s by blast
    with d show "count_list ?aliases (L a) = 1"
      by (rule count_list_distinct)
  qed
  have f: "(\<forall>s. L (L s) = L s) \<longrightarrow> (\<forall>s \<in> set ?aliases. L s = s) \<and> distinct (map L ?aliases)"
  proof
    assume idem: "\<forall>s. L (L s) = L s"
    have fixed: "\<forall>s \<in> set ?aliases. L s = s"
    proof
      fix x
      assume "x \<in> set ?aliases"
      then consider "x \<in> set (NetworkAliases t)" | a where "a \<in> set (Aliases req)" "x = L a"
        unfolding s by blast
      then show "L x = x"
        using assms(3) idem by cases auto
    qed
    then have "map L ?aliases = ?aliases"
      by (simp add: map_idI)
    with d fixed show "(\<forall>s \<in> set ?aliases. L s = s) \<and> distinct (map L ?aliases)"
      by simp
  qed
  show ?thesis
    using NetworkConnect_stores [OF assms(1,2), of L] s d c f by blast
qed

theorem NetworkConnect_aliases_deduplicated_witness:
  "DB_GetNetworkByNameOrID (DB sample_world) ''backend'' = Inr backend_network \<and>
   DB_GetContainerByNameOrID (DB sample_world) ''web'' = Inr web_container \<and>
   NetworkAliases web_container = [] \<and>
   (\<forall>s. asciiToLower (asciiToLower s) = asciiToLower s) \<and>
   NetworkConnect asciiToLower ''backend''
     (Inr (Some \<lparr>NetworkConnectRequest.Container = ''web'', Aliases = [''Web'', ''web'', ''API'']\<rparr>))
     sample_world =
     (RespJSON StatusOK (JObject []),
      sample_world\<lparr>DB := (DB sample_world)\<lparr>containers :=
        [web_container\<lparr>Networks := {''n0'', ''n1''}, NetworkAliases := [''web'', ''api'']\<rparr>,
         job_container]\<rparr>\<rparr>) \<and>
   count_list [''web'', ''api''] ''web'' = 1 \<and>
   distinct (map asciiToLower [''web'', ''api'']) \<and>
   DB_GetContainerByNameOrID (DB sample_world) ''job'' = Inr job_container \<and>
   NetworkAliases job_container = [''worker''] \<and>
   asciiToLower ''worker'' = ''worker'' \<and>
   NetworkConnect asciiToLower ''backend''
     (Inr (Some \<lparr>NetworkConnectRequest.Container = ''job'',
                  Aliases = [''Worker'', ''API'', ''api'']\<rparr>))
     sample_world =
     (RespJSON StatusOK (JObject []),
      sample_world\<lparr>DB := (DB sample_world)\<lparr>containers :=
        [web_container,
         job_container\<lparr>Networks := {''n1'', ''n0''},
                       NetworkAliases := [''worker'', ''api'']\<rparr>]\<rparr>\<rparr>)"
proof -
  have l: "asciiToLower ''Web'' = ''web''" "asciiToLower ''web'' = ''web''"
    "asciiToLower ''API'' = ''api''" "asciiToLower ''api'' = ''api''"
    "asciiToLower ''Worker'' = ''worker''" "asciiToLower ''worker'' = ''worker''"
    by code_simp+
  have f: "Container.ID web_container = ''c1''" "Container.ID job_container = ''c2''"
    "Network.ID backend_network = ''n1''" "NetworkAliases web_container = []"
    "NetworkAliases job_container = [''worker'']"
    "Networks web_container = {''n0'', ''n1''}" "Networks job_container = {''n0''}"
    "containers (DB sample_world) = [web_container, job_container]"
    by (simp_all add: web_container_def job_container_def backend_network_def sample_world_def)
  have i: "insert ''n1'' {''n0'', ''n1''} = {''n0'', ''n1''}"
    by auto
  show ?thesis
    using NetworkConnect_aliases_deduplicated [where L = asciiToLower and w = sample_world
        and i = "''backend''" and netw = backend_network and t = web_container
        and req = "\<lparr>NetworkConnectRequest.Container = ''web'',
                     Aliases = [''Web'', ''web'', ''API'']\<rparr>"]
      NetworkConnect_aliases_deduplicated [where L = asciiToLower and w = sample_world
        and i = "''backend''" and netw = backend_network and t = job_container
        and req = "\<lparr>NetworkConnectRequest.Container = ''job'',
                     Aliases = [''Worker'', ''API'', ''api'']\<rparr>"]
      sample_networks(2) sample_containers asciiToLower_idem
    by (simp add: l f i)
qed

end
